theory Spec2Isabelle
  imports Main "HOL-Library.Word"
begin

unbundle bit_operations_syntax

section \<open>Data model of the codec\<close>

text \<open>
  Go's fixed-width integers are words: conversions between a signed type and the unsigned
  type of the same width (\<open>uint32(v)\<close>, \<open>int32(u)\<close>) keep the bit pattern, so both are
  the same word type here. \<open>byte(x)\<close> on a wider word and \<open>uint32(b)\<close> on a byte are
  \<open>ucast\<close>; \<open>x >> k\<close> on an unsigned word is \<open>drop_bit k\<close>, on a signed one
  \<open>signed_drop_bit k\<close>; \<open>x << k\<close> is \<open>push_bit k\<close>.
\<close>

type_synonym byte = "8 word"
type_synonym int16 = "16 word"
type_synonym uint16 = "16 word"
type_synonym int32 = "32 word"
type_synonym uint32 = "32 word"
type_synonym int64 = "64 word"
type_synonym uint64 = "64 word"

text \<open>
  A \<open>float32\<close> (\<open>float64\<close>) is known to the codec only through \<open>math.Float32bits\<close>
  and \<open>math.Float32frombits\<close>, which reinterpret the IEEE-754 bits; the value is
  represented by its bit pattern.
\<close>

datatype float32 = Float32frombits (Float32bits: uint32)
datatype float64 = Float64frombits (Float64bits: uint64)

text \<open>
  Go's \<open>int\<close> is modelled at its 64-bit width (amd64, arm64): a value of \<open>int\<close> is an
  integer between \<open>MinInt\<close> and \<open>MaxInt\<close>, and arithmetic on it wraps around
  silently, which \<open>wrap_int\<close> writes out.
\<close>

definition MaxInt :: int where
  "MaxInt = 2 ^ 63 - 1"

definition MinInt :: int where
  "MinInt = - (2 ^ 63)"

definition wrap_int :: "int \<Rightarrow> int" where
  "wrap_int x = (x + 2 ^ 63) mod 2 ^ 64 - 2 ^ 63"

text \<open>
  Errors are built with \<open>errors.New(msg)\<close> and \<open>errors.Wrap(err, msg)\<close> of
  github.com/pkg/errors; a Go \<open>error\<close> that may be \<open>nil\<close> is an \<open>error option\<close>.
\<close>

datatype error = New string | Wrap error string

text \<open>A call either returns or panics (a slice expression out of range, a nil dereference).\<close>

datatype 'a exec = Return 'a | Panic

subsection \<open>Read and Write\<close>

text \<open>
  \<open>Read\<close> takes the buffer and the offset by pointer and advances the offset; the model
  returns the bytes, the error and the offset after the call. The slice expression
  \<open>(*buffer)[*offset : *offset+length]\<close> panics unless
  \<open>0 \<le> *offset \<le> *offset+length \<le> cap(*buffer)\<close>; the test before it has already
  established the upper bound against \<open>len(*buffer)\<close>. A \<open>nil\<close> slice is the empty list.
\<close>

definition Read :: "byte list \<Rightarrow> int \<Rightarrow> int \<Rightarrow> (byte list \<times> error option \<times> int) exec" where
  "Read buffer offset length' =
     (let hi = wrap_int (offset + length') in
      if int (length buffer) < hi then
        Return ([], Some (New ''Not enough bytes to read''), offset)
      else if 0 \<le> offset \<and> offset \<le> hi then
        Return (take (nat (hi - offset)) (drop (nat offset) buffer), None, hi)
      else Panic)"

definition Write :: "byte list \<Rightarrow> byte \<Rightarrow> byte list" where
  "Write buffer v = buffer @ [v]"

subsection \<open>Fixed-width kinds, big-endian\<close>

definition WriteByte :: "byte list \<Rightarrow> byte \<Rightarrow> byte list" where
  "WriteByte buffer v = Write buffer v"

definition WriteBool :: "byte list \<Rightarrow> bool \<Rightarrow> byte list" where
  "WriteBool buffer v = (if v then WriteByte buffer 0x01 else WriteByte buffer 0x00)"

definition ReadBool :: "byte list \<Rightarrow> int \<Rightarrow> (bool \<times> error option \<times> int) exec" where
  "ReadBool buffer offset =
     (case Read buffer offset 1 of
        Panic \<Rightarrow> Panic
      | Return (out, err, offset') \<Rightarrow>
          (case err of
             Some e \<Rightarrow> Return (False, Some (Wrap e ''Error reading byte for bool''), offset')
           | None \<Rightarrow> Return (out ! 0 \<noteq> 0x00, None, offset')))"

definition ReadByte :: "byte list \<Rightarrow> int \<Rightarrow> (byte \<times> error option \<times> int) exec" where
  "ReadByte buffer offset =
     (case Read buffer offset 1 of
        Panic \<Rightarrow> Panic
      | Return (out, err, offset') \<Rightarrow>
          (case err of
             Some e \<Rightarrow> Return (0, Some (Wrap e ''Error reading byte''), offset')
           | None \<Rightarrow> Return (out ! 0, None, offset')))"

definition WriteUnsignedByte :: "byte list \<Rightarrow> byte \<Rightarrow> byte list" where
  "WriteUnsignedByte buffer v = WriteByte buffer v"

definition ReadUnsignedByte :: "byte list \<Rightarrow> int \<Rightarrow> (byte \<times> error option \<times> int) exec" where
  "ReadUnsignedByte buffer offset =
     (case Read buffer offset 1 of
        Panic \<Rightarrow> Panic
      | Return (out, err, offset') \<Rightarrow>
          (case err of
             Some e \<Rightarrow> Return (0, Some (Wrap e ''Error reading unsigned byte''), offset')
           | None \<Rightarrow> Return (out ! 0, None, offset')))"

definition WriteShort :: "byte list \<Rightarrow> int16 \<Rightarrow> byte list" where
  "WriteShort buffer v = buffer @ [ucast (drop_bit 8 v), ucast v]"

definition ReadShort :: "byte list \<Rightarrow> int \<Rightarrow> (int16 \<times> error option \<times> int) exec" where
  "ReadShort buffer offset =
     (case Read buffer offset 2 of
        Panic \<Rightarrow> Panic
      | Return (b, err, offset') \<Rightarrow>
          (case err of
             Some e \<Rightarrow> Return (0, Some (Wrap e ''Error reading bytes for short''), offset')
           | None \<Rightarrow> Return (ucast (b ! 1) OR push_bit 8 (ucast (b ! 0)), None, offset')))"

definition WriteUnsignedShort :: "byte list \<Rightarrow> uint16 \<Rightarrow> byte list" where
  "WriteUnsignedShort buffer v = buffer @ [ucast (drop_bit 8 v), ucast v]"

definition ReadUnsignedShort :: "byte list \<Rightarrow> int \<Rightarrow> (uint16 \<times> error option \<times> int) exec" where
  "ReadUnsignedShort buffer offset =
     (case Read buffer offset 2 of
        Panic \<Rightarrow> Panic
      | Return (b, err, offset') \<Rightarrow>
          (case err of
             Some e \<Rightarrow>
               Return (0, Some (Wrap e ''Error reading bytes for unsigned short''), offset')
           | None \<Rightarrow> Return (ucast (b ! 1) OR push_bit 8 (ucast (b ! 0)), None, offset')))"

definition WriteInt :: "byte list \<Rightarrow> int32 \<Rightarrow> byte list" where
  "WriteInt buffer v =
     buffer @ [ucast (drop_bit 24 v), ucast (drop_bit 16 v), ucast (drop_bit 8 v), ucast v]"

definition ReadInt :: "byte list \<Rightarrow> int \<Rightarrow> (int32 \<times> error option \<times> int) exec" where
  "ReadInt buffer offset =
     (case Read buffer offset 4 of
        Panic \<Rightarrow> Panic
      | Return (b, err, offset') \<Rightarrow>
          (case err of
             Some e \<Rightarrow> Return (0, Some (Wrap e ''Error reading bytes for int''), offset')
           | None \<Rightarrow>
               Return (ucast (b ! 3) OR push_bit 8 (ucast (b ! 2)) OR push_bit 16 (ucast (b ! 1))
                       OR push_bit 24 (ucast (b ! 0)), None, offset')))"

definition WriteUnsignedInt :: "byte list \<Rightarrow> uint32 \<Rightarrow> byte list" where
  "WriteUnsignedInt buffer v =
     buffer @ [ucast (drop_bit 24 v), ucast (drop_bit 16 v), ucast (drop_bit 8 v), ucast v]"

definition ReadUnsignedInt :: "byte list \<Rightarrow> int \<Rightarrow> (uint32 \<times> error option \<times> int) exec" where
  "ReadUnsignedInt buffer offset =
     (case Read buffer offset 4 of
        Panic \<Rightarrow> Panic
      | Return (b, err, offset') \<Rightarrow>
          (case err of
             Some e \<Rightarrow> Return (0, Some (Wrap e ''Error reading bytes for unsigned int''), offset')
           | None \<Rightarrow>
               Return (ucast (b ! 3) OR push_bit 8 (ucast (b ! 2)) OR push_bit 16 (ucast (b ! 1))
                       OR push_bit 24 (ucast (b ! 0)), None, offset')))"

definition WriteLong :: "byte list \<Rightarrow> int64 \<Rightarrow> byte list" where
  "WriteLong buffer v =
     buffer @ [ucast (drop_bit 56 v), ucast (drop_bit 48 v), ucast (drop_bit 40 v),
               ucast (drop_bit 32 v), ucast (drop_bit 24 v), ucast (drop_bit 16 v),
               ucast (drop_bit 8 v), ucast v]"

definition ReadLong :: "byte list \<Rightarrow> int \<Rightarrow> (int64 \<times> error option \<times> int) exec" where
  "ReadLong buffer offset =
     (case Read buffer offset 8 of
        Panic \<Rightarrow> Panic
      | Return (b, err, offset') \<Rightarrow>
          (case err of
             Some e \<Rightarrow> Return (0, Some (Wrap e ''Error reading bytes for long''), offset')
           | None \<Rightarrow>
               Return (ucast (b ! 7) OR push_bit 8 (ucast (b ! 6)) OR push_bit 16 (ucast (b ! 5))
                       OR push_bit 24 (ucast (b ! 4)) OR push_bit 32 (ucast (b ! 3))
                       OR push_bit 40 (ucast (b ! 2)) OR push_bit 48 (ucast (b ! 1))
                       OR push_bit 56 (ucast (b ! 0)), None, offset')))"

definition WriteUnsignedLong :: "byte list \<Rightarrow> uint64 \<Rightarrow> byte list" where
  "WriteUnsignedLong buffer v =
     buffer @ [ucast (drop_bit 56 v), ucast (drop_bit 48 v), ucast (drop_bit 40 v),
               ucast (drop_bit 32 v), ucast (drop_bit 24 v), ucast (drop_bit 16 v),
               ucast (drop_bit 8 v), ucast v]"

definition ReadUnsignedLong :: "byte list \<Rightarrow> int \<Rightarrow> (uint64 \<times> error option \<times> int) exec" where
  "ReadUnsignedLong buffer offset =
     (case Read buffer offset 8 of
        Panic \<Rightarrow> Panic
      | Return (b, err, offset') \<Rightarrow>
          (case err of
             Some e \<Rightarrow> Return (0, Some (Wrap e ''Error reading bytes for unsigned long''), offset')
           | None \<Rightarrow>
               Return (ucast (b ! 7) OR push_bit 8 (ucast (b ! 6)) OR push_bit 16 (ucast (b ! 5))
                       OR push_bit 24 (ucast (b ! 4)) OR push_bit 32 (ucast (b ! 3))
                       OR push_bit 40 (ucast (b ! 2)) OR push_bit 48 (ucast (b ! 1))
                       OR push_bit 56 (ucast (b ! 0)), None, offset')))"

definition WriteFloat :: "byte list \<Rightarrow> float32 \<Rightarrow> byte list" where
  "WriteFloat buffer f =
     (let v = Float32bits f in
      buffer @ [ucast (drop_bit 24 v), ucast (drop_bit 16 v), ucast (drop_bit 8 v), ucast v])"

definition ReadFloat :: "byte list \<Rightarrow> int \<Rightarrow> (float32 \<times> error option \<times> int) exec" where
  "ReadFloat buffer offset =
     (case Read buffer offset 4 of
        Panic \<Rightarrow> Panic
      | Return (b, err, offset') \<Rightarrow>
          (case err of
             Some e \<Rightarrow>
               Return (Float32frombits 0, Some (Wrap e ''Error reading bytes for float''), offset')
           | None \<Rightarrow>
               (let out = ucast (b ! 3) OR push_bit 8 (ucast (b ! 2))
                          OR push_bit 16 (ucast (b ! 1)) OR push_bit 24 (ucast (b ! 0))
                in Return (Float32frombits out, None, offset'))))"

definition WriteDouble :: "byte list \<Rightarrow> float64 \<Rightarrow> byte list" where
  "WriteDouble buffer d =
     (let v = Float64bits d in
      buffer @ [ucast (drop_bit 56 v), ucast (drop_bit 48 v), ucast (drop_bit 40 v),
                ucast (drop_bit 32 v), ucast (drop_bit 24 v), ucast (drop_bit 16 v),
                ucast (drop_bit 8 v), ucast v])"

definition ReadDouble :: "byte list \<Rightarrow> int \<Rightarrow> (float64 \<times> error option \<times> int) exec" where
  "ReadDouble buffer offset =
     (case Read buffer offset 8 of
        Panic \<Rightarrow> Panic
      | Return (b, err, offset') \<Rightarrow>
          (case err of
             Some e \<Rightarrow>
               Return (Float64frombits 0, Some (Wrap e ''Error reading bytes for double''), offset')
           | None \<Rightarrow>
               (let out = ucast (b ! 7) OR push_bit 8 (ucast (b ! 6))
                          OR push_bit 16 (ucast (b ! 5)) OR push_bit 24 (ucast (b ! 4))
                          OR push_bit 32 (ucast (b ! 3)) OR push_bit 40 (ucast (b ! 2))
                          OR push_bit 48 (ucast (b ! 1)) OR push_bit 56 (ucast (b ! 0))
                in Return (Float64frombits out, None, offset'))))"

subsection \<open>Fixed-width kinds, little-endian\<close>

definition WriteLittleShort :: "byte list \<Rightarrow> int16 \<Rightarrow> byte list" where
  "WriteLittleShort buffer v = buffer @ [ucast v, ucast (drop_bit 8 v)]"

definition ReadLittleShort :: "byte list \<Rightarrow> int \<Rightarrow> (int16 \<times> error option \<times> int) exec" where
  "ReadLittleShort buffer offset =
     (case Read buffer offset 2 of
        Panic \<Rightarrow> Panic
      | Return (b, err, offset') \<Rightarrow>
          (case err of
             Some e \<Rightarrow>
               Return (0, Some (Wrap e ''Error reading bytes for little endian short''), offset')
           | None \<Rightarrow> Return (ucast (b ! 0) OR push_bit 8 (ucast (b ! 1)), None, offset')))"

definition WriteLittleUnsignedShort :: "byte list \<Rightarrow> uint16 \<Rightarrow> byte list" where
  "WriteLittleUnsignedShort buffer v = buffer @ [ucast v, ucast (drop_bit 8 v)]"

definition ReadLittleUnsignedShort ::
  "byte list \<Rightarrow> int \<Rightarrow> (uint16 \<times> error option \<times> int) exec" where
  "ReadLittleUnsignedShort buffer offset =
     (case Read buffer offset 2 of
        Panic \<Rightarrow> Panic
      | Return (b, err, offset') \<Rightarrow>
          (case err of
             Some e \<Rightarrow>
               Return (0, Some (Wrap e ''Error reading bytes for unsigned little endian short''),
                       offset')
           | None \<Rightarrow> Return (ucast (b ! 0) OR push_bit 8 (ucast (b ! 1)), None, offset')))"

definition WriteLittleInt :: "byte list \<Rightarrow> int32 \<Rightarrow> byte list" where
  "WriteLittleInt buffer v =
     buffer @ [ucast v, ucast (drop_bit 8 v), ucast (drop_bit 16 v), ucast (drop_bit 24 v)]"

definition ReadLittleInt :: "byte list \<Rightarrow> int \<Rightarrow> (int32 \<times> error option \<times> int) exec" where
  "ReadLittleInt buffer offset =
     (case Read buffer offset 4 of
        Panic \<Rightarrow> Panic
      | Return (b, err, offset') \<Rightarrow>
          (case err of
             Some e \<Rightarrow>
               Return (0, Some (Wrap e ''Error reading bytes for little endian int''), offset')
           | None \<Rightarrow>
               Return (ucast (b ! 0) OR push_bit 8 (ucast (b ! 1)) OR push_bit 16 (ucast (b ! 2))
                       OR push_bit 24 (ucast (b ! 3)), None, offset')))"

definition WriteLittleUnsignedInt :: "byte list \<Rightarrow> uint32 \<Rightarrow> byte list" where
  "WriteLittleUnsignedInt buffer v =
     buffer @ [ucast v, ucast (drop_bit 8 v), ucast (drop_bit 16 v), ucast (drop_bit 24 v)]"

definition ReadLittleUnsignedInt ::
  "byte list \<Rightarrow> int \<Rightarrow> (uint32 \<times> error option \<times> int) exec" where
  "ReadLittleUnsignedInt buffer offset =
     (case Read buffer offset 4 of
        Panic \<Rightarrow> Panic
      | Return (b, err, offset') \<Rightarrow>
          (case err of
             Some e \<Rightarrow>
               Return (0, Some (Wrap e ''Error reading bytes for unsigned little endian int''),
                       offset')
           | None \<Rightarrow>
               Return (ucast (b ! 0) OR push_bit 8 (ucast (b ! 1)) OR push_bit 16 (ucast (b ! 2))
                       OR push_bit 24 (ucast (b ! 3)), None, offset')))"

definition WriteLittleLong :: "byte list \<Rightarrow> int64 \<Rightarrow> byte list" where
  "WriteLittleLong buffer v =
     buffer @ [ucast v, ucast (drop_bit 8 v), ucast (drop_bit 16 v), ucast (drop_bit 24 v),
               ucast (drop_bit 32 v), ucast (drop_bit 40 v), ucast (drop_bit 48 v),
               ucast (drop_bit 56 v)]"

definition ReadLittleLong :: "byte list \<Rightarrow> int \<Rightarrow> (int64 \<times> error option \<times> int) exec" where
  "ReadLittleLong buffer offset =
     (case Read buffer offset 8 of
        Panic \<Rightarrow> Panic
      | Return (b, err, offset') \<Rightarrow>
          (case err of
             Some e \<Rightarrow>
               Return (0, Some (Wrap e ''Error reading bytes for little endian long''), offset')
           | None \<Rightarrow>
               Return (ucast (b ! 0) OR push_bit 8 (ucast (b ! 1)) OR push_bit 16 (ucast (b ! 2))
                       OR push_bit 24 (ucast (b ! 3)) OR push_bit 32 (ucast (b ! 4))
                       OR push_bit 40 (ucast (b ! 5)) OR push_bit 48 (ucast (b ! 6))
                       OR push_bit 56 (ucast (b ! 7)), None, offset')))"

definition WriteLittleUnsignedLong :: "byte list \<Rightarrow> uint64 \<Rightarrow> byte list" where
  "WriteLittleUnsignedLong buffer v =
     buffer @ [ucast v, ucast (drop_bit 8 v), ucast (drop_bit 16 v), ucast (drop_bit 24 v),
               ucast (drop_bit 32 v), ucast (drop_bit 40 v), ucast (drop_bit 48 v),
               ucast (drop_bit 56 v)]"

definition ReadLittleUnsignedLong ::
  "byte list \<Rightarrow> int \<Rightarrow> (uint64 \<times> error option \<times> int) exec" where
  "ReadLittleUnsignedLong buffer offset =
     (case Read buffer offset 8 of
        Panic \<Rightarrow> Panic
      | Return (b, err, offset') \<Rightarrow>
          (case err of
             Some e \<Rightarrow>
               Return (0, Some (Wrap e ''Error reading bytes for unsigned little endian long''),
                       offset')
           | None \<Rightarrow>
               Return (ucast (b ! 0) OR push_bit 8 (ucast (b ! 1)) OR push_bit 16 (ucast (b ! 2))
                       OR push_bit 24 (ucast (b ! 3)) OR push_bit 32 (ucast (b ! 4))
                       OR push_bit 40 (ucast (b ! 5)) OR push_bit 48 (ucast (b ! 6))
                       OR push_bit 56 (ucast (b ! 7)), None, offset')))"

definition WriteLittleFloat :: "byte list \<Rightarrow> float32 \<Rightarrow> byte list" where
  "WriteLittleFloat buffer f =
     (let v = Float32bits f in
      buffer @ [ucast v, ucast (drop_bit 8 v), ucast (drop_bit 16 v), ucast (drop_bit 24 v)])"

definition ReadLittleFloat :: "byte list \<Rightarrow> int \<Rightarrow> (float32 \<times> error option \<times> int) exec" where
  "ReadLittleFloat buffer offset =
     (case Read buffer offset 4 of
        Panic \<Rightarrow> Panic
      | Return (b, err, offset') \<Rightarrow>
          (case err of
             Some e \<Rightarrow>
               Return (Float32frombits 0,
                       Some (Wrap e ''Error reading bytes for little endian float''), offset')
           | None \<Rightarrow>
               (let out = ucast (b ! 0) OR push_bit 8 (ucast (b ! 1))
                          OR push_bit 16 (ucast (b ! 2)) OR push_bit 24 (ucast (b ! 3))
                in Return (Float32frombits out, None, offset'))))"

definition WriteLittleDouble :: "byte list \<Rightarrow> float64 \<Rightarrow> byte list" where
  "WriteLittleDouble buffer d =
     (let v = Float64bits d in
      buffer @ [ucast v, ucast (drop_bit 8 v), ucast (drop_bit 16 v), ucast (drop_bit 24 v),
                ucast (drop_bit 32 v), ucast (drop_bit 40 v), ucast (drop_bit 48 v),
                ucast (drop_bit 56 v)])"

definition ReadLittleDouble :: "byte list \<Rightarrow> int \<Rightarrow> (float64 \<times> error option \<times> int) exec" where
  "ReadLittleDouble buffer offset =
     (case Read buffer offset 8 of
        Panic \<Rightarrow> Panic
      | Return (b, err, offset') \<Rightarrow>
          (case err of
             Some e \<Rightarrow>
               Return (Float64frombits 0,
                       Some (Wrap e ''Error reading bytes for little endian double''), offset')
           | None \<Rightarrow>
               (let out = ucast (b ! 0) OR push_bit 8 (ucast (b ! 1))
                          OR push_bit 16 (ucast (b ! 2)) OR push_bit 24 (ucast (b ! 3))
                          OR push_bit 32 (ucast (b ! 4)) OR push_bit 40 (ucast (b ! 5))
                          OR push_bit 48 (ucast (b ! 6)) OR push_bit 56 (ucast (b ! 7))
                in Return (Float64frombits out, None, offset'))))"

subsection \<open>Triads\<close>

definition ReadBigTriad :: "byte list \<Rightarrow> int \<Rightarrow> (uint32 \<times> error option \<times> int) exec" where
  "ReadBigTriad buffer offset =
     (case Read buffer offset 3 of
        Panic \<Rightarrow> Panic
      | Return (b, err, offset') \<Rightarrow>
          (case err of
             Some e \<Rightarrow>
               Return (0, Some (Wrap e ''Error reading bytes for big endian triad''), offset')
           | None \<Rightarrow>
               Return ((ucast (b ! 2) AND 0xFF) OR push_bit 8 (ucast (b ! 1) AND 0xFF)
                       OR push_bit 16 (ucast (b ! 0) AND 0x0F), None, offset')))"

definition WriteLittleTriad :: "byte list \<Rightarrow> uint32 \<Rightarrow> byte list" where
  "WriteLittleTriad buffer v =
     (let buffer1 = Write buffer (ucast (v AND 0xFF));
          buffer2 = Write buffer1 (ucast (drop_bit 8 v) AND 0xFF)
      in Write buffer2 (ucast (drop_bit 16 v) AND 0xFF))"

definition ReadLittleTriad :: "byte list \<Rightarrow> int \<Rightarrow> (uint32 \<times> error option \<times> int) exec" where
  "ReadLittleTriad buffer offset =
     (case Read buffer offset 3 of
        Panic \<Rightarrow> Panic
      | Return (b, err, offset') \<Rightarrow>
          (case err of
             Some e \<Rightarrow>
               Return (0, Some (Wrap e ''Error reading bytes for little endian triad''), offset')
           | None \<Rightarrow>
               Return ((ucast (b ! 0) AND 0xFF) OR push_bit 8 (ucast (b ! 1) AND 0xFF)
                       OR push_bit 16 (ucast (b ! 2) AND 0x0F), None, offset')))"

definition WriteBigTriad :: "byte list \<Rightarrow> uint32 \<Rightarrow> byte list" where
  "WriteBigTriad buffer v =
     (let buffer1 = Write buffer (ucast (drop_bit 16 v) AND 0xFF);
          buffer2 = Write buffer1 (ucast (drop_bit 8 v) AND 0xFF)
      in Write buffer2 (ucast (v AND 0xFF)))"

subsection \<open>Zig-zag and variable-length integers\<close>

definition toZigZag32 :: "int32 \<Rightarrow> uint32" where
  "toZigZag32 n = push_bit 1 n XOR signed_drop_bit 31 n"

definition fromZigZag32 :: "uint32 \<Rightarrow> int32" where
  "fromZigZag32 n = drop_bit 1 n XOR - (n AND 1)"

definition toZigZag64 :: "int64 \<Rightarrow> uint64" where
  "toZigZag64 n = push_bit 1 n XOR signed_drop_bit 63 n"

definition fromZigZag64 :: "uint64 \<Rightarrow> int64" where
  "fromZigZag64 n = drop_bit 1 n XOR - (n AND 1)"

text \<open>
  \<open>for (value & uint32(x)) != 0 { ... value >>= 7 }\<close> with \<open>x = -128\<close>: the loop runs
  while a bit above the low seven is set, and every round shifts the value right.
\<close>

function WriteUnsignedVarInt :: "byte list \<Rightarrow> uint32 \<Rightarrow> byte list" where
  "WriteUnsignedVarInt buffer v =
     (if v AND (- 128) \<noteq> 0 then
        WriteUnsignedVarInt (Write buffer (ucast ((v AND 0x7F) OR 0x80))) (drop_bit 7 v)
      else Write buffer (ucast v))"
  by pat_completeness auto
termination
proof (relation "measure (\<lambda>(buffer, v). unat v)")
  fix buffer :: "byte list" and v :: uint32
  assume "v AND (- 128) \<noteq> 0"
  then have "v \<noteq> 0" by auto
  then have "0 < unat v" by (simp add: unat_gt_0)
  then have "unat v div 2 ^ 7 < unat v" by simp
  then show "((Write buffer (ucast ((v AND 0x7F) OR 0x80)), drop_bit 7 v), (buffer, v))
             \<in> measure (\<lambda>(buffer, v). unat v)"
    by (simp add: unat_drop_bit_eq drop_bit_nat_def)
qed simp

function WriteUnsignedVarLong :: "byte list \<Rightarrow> uint64 \<Rightarrow> byte list" where
  "WriteUnsignedVarLong buffer v =
     (if v AND (- 128) \<noteq> 0 then
        WriteUnsignedVarLong (Write buffer (ucast ((v AND 0x7F) OR 0x80))) (drop_bit 7 v)
      else Write buffer (ucast v))"
  by pat_completeness auto
termination
proof (relation "measure (\<lambda>(buffer, v). unat v)")
  fix buffer :: "byte list" and v :: uint64
  assume "v AND (- 128) \<noteq> 0"
  then have "v \<noteq> 0" by auto
  then have "0 < unat v" by (simp add: unat_gt_0)
  then have "unat v div 2 ^ 7 < unat v" by simp
  then show "((Write buffer (ucast ((v AND 0x7F) OR 0x80)), drop_bit 7 v), (buffer, v))
             \<in> measure (\<lambda>(buffer, v). unat v)"
    by (simp add: unat_drop_bit_eq drop_bit_nat_def)
qed simp

text \<open>
  The do-while loop of \<open>ReadUnsignedVarInt\<close>, entered with \<open>result = 0\<close> and
  \<open>j = 0\<close>. The counter \<open>j\<close> is a \<open>uint32\<close> that never exceeds 6, so it is a
  \<open>nat\<close> here; a shift by 32 or more yields 0 in Go as \<open>push_bit\<close> does on a word.
  The test \<open>b0 < 0\<close> on a byte is kept as the source has it.
\<close>

function ReadUnsignedVarInt_loop ::
  "byte list \<Rightarrow> int \<Rightarrow> uint32 \<Rightarrow> nat \<Rightarrow> (uint32 \<times> error option \<times> int) exec" where
  "ReadUnsignedVarInt_loop buffer offset result j =
     (case Read buffer offset 1 of
        Panic \<Rightarrow> Panic
      | Return (b, err, offset') \<Rightarrow>
          (case err of
             Some e \<Rightarrow>
               Return (0, Some (Wrap e ''Couldn't get next byte of unsigned varint''), offset')
           | None \<Rightarrow>
               (let b0 = b ! 0 in
                if b0 < 0 then
                  Return (0, Some (New ''not enough bytes for unsigned varint''), offset')
                else
                  (let result' = result OR push_bit (j * 7) (ucast (b0 AND 0x7f));
                       j' = j + 1
                   in if j' > 5 then Return (0, Some (New ''Unsigned varint too big''), offset')
                      else if b0 AND 0x80 \<noteq> 0 then
                        ReadUnsignedVarInt_loop buffer offset' result' j'
                      else Return (result', None, offset')))))"
  by pat_completeness auto
termination
  by (relation "measure (\<lambda>(buffer, offset, result, j). 6 - j)") auto

definition ReadUnsignedVarInt ::
  "byte list \<Rightarrow> int \<Rightarrow> (uint32 \<times> error option \<times> int) exec" where
  "ReadUnsignedVarInt buffer offset = ReadUnsignedVarInt_loop buffer offset 0 0"

function ReadUnsignedVarLong_loop ::
  "byte list \<Rightarrow> int \<Rightarrow> uint64 \<Rightarrow> nat \<Rightarrow> (uint64 \<times> error option \<times> int) exec" where
  "ReadUnsignedVarLong_loop buffer offset result j =
     (case Read buffer offset 1 of
        Panic \<Rightarrow> Panic
      | Return (b, err, offset') \<Rightarrow>
          (case err of
             Some e \<Rightarrow> Return (0, Some (Wrap e ''Error reading unsigned var long''), offset')
           | None \<Rightarrow>
               (let b0 = b ! 0 in
                if b0 < 0 then
                  Return (0, Some (New ''Not enough bytes for unsigned var long''), offset')
                else
                  (let result' = result OR push_bit (j * 7) (ucast (b0 AND 0x7f));
                       j' = j + 1
                   in if j' > 10 then
                        Return (0, Some (New ''Unsigned var long too big''), offset')
                      else if b0 AND 0x80 \<noteq> 0 then
                        ReadUnsignedVarLong_loop buffer offset' result' j'
                      else Return (result', None, offset')))))"
  by pat_completeness auto
termination
  by (relation "measure (\<lambda>(buffer, offset, result, j). 11 - j)") auto

definition ReadUnsignedVarLong ::
  "byte list \<Rightarrow> int \<Rightarrow> (uint64 \<times> error option \<times> int) exec" where
  "ReadUnsignedVarLong buffer offset = ReadUnsignedVarLong_loop buffer offset 0 0"

definition WriteVarInt :: "byte list \<Rightarrow> int32 \<Rightarrow> byte list" where
  "WriteVarInt buffer v = WriteUnsignedVarInt buffer (toZigZag32 v)"

definition ReadVarInt :: "byte list \<Rightarrow> int \<Rightarrow> (int32 \<times> error option \<times> int) exec" where
  "ReadVarInt buffer offset =
     (case ReadUnsignedVarInt buffer offset of
        Panic \<Rightarrow> Panic
      | Return (u, err, offset') \<Rightarrow>
          (case err of
             Some e \<Rightarrow> Return (0, Some (Wrap e ''Error reading varint''), offset')
           | None \<Rightarrow> Return (fromZigZag32 u, None, offset')))"

definition WriteVarLong :: "byte list \<Rightarrow> int64 \<Rightarrow> byte list" where
  "WriteVarLong buffer v = WriteUnsignedVarLong buffer (toZigZag64 v)"

definition ReadVarLong :: "byte list \<Rightarrow> int \<Rightarrow> (int64 \<times> error option \<times> int) exec" where
  "ReadVarLong buffer offset =
     (case ReadUnsignedVarLong buffer offset of
        Panic \<Rightarrow> Panic
      | Return (u, err, offset') \<Rightarrow>
          (case err of
             Some e \<Rightarrow> Return (0, Some (Wrap e ''Error reading var long''), offset')
           | None \<Rightarrow> Return (fromZigZag64 u, None, offset')))"

subsection \<open>Length-prefixed strings\<close>

text \<open>
  A Go string is a sequence of bytes; \<open>[]byte(str)\<close> and \<open>string(strbytes)\<close> copy
  the bytes unchanged. \<open>uint32(len(str))\<close> truncates the length to 32 bits, and
  \<open>int(l)\<close> of a \<open>uint32\<close> is its unsigned value.
\<close>

definition WriteString :: "byte list \<Rightarrow> byte list \<Rightarrow> byte list" where
  "WriteString buffer str = WriteUnsignedVarInt buffer (of_nat (length str)) @ str"

definition ReadString :: "byte list \<Rightarrow> int \<Rightarrow> (byte list \<times> error option \<times> int) exec" where
  "ReadString buffer offset =
     (case ReadUnsignedVarInt buffer offset of
        Panic \<Rightarrow> Panic
      | Return (l, err, offset') \<Rightarrow>
          (case err of
             Some e \<Rightarrow> Return ([], Some (Wrap e ''Error reading length of string''), offset')
           | None \<Rightarrow>
               (case Read buffer offset' (uint l) of
                  Panic \<Rightarrow> Panic
                | Return (strbytes, err', offset'') \<Rightarrow>
                    (case err' of
                       Some e \<Rightarrow>
                         Return ([], Some (Wrap e ''Error reading the bytes of the string''),
                                 offset'')
                     | None \<Rightarrow> Return (strbytes, None, offset'')))))"

section \<open>The Stream\<close>

text \<open>
  \<open>streamErr\<close> holds the recorded error, the offset at which it was recorded and a
  pointer to the buffer given to \<open>NewGetStream\<close> (\<open>nil\<close> for \<open>NewStream\<close>); its
  fields \<open>err\<close>, \<open>offset\<close> and \<open>buf\<close> carry the prefix \<open>se_\<close>. The field
  \<open>err\<close> of a \<open>Stream\<close> is a pointer to a \<open>streamErr\<close> that only this stream
  holds: \<open>None\<close> is the \<open>nil\<close> pointer, \<open>Some se\<close> a pointer to \<open>se\<close>.
\<close>

record streamErr =
  se_err :: "error option"
  se_offset :: int
  se_buf :: "byte list option"

record Stream =
  Offset :: int
  Buffer :: "byte list"
  err :: "streamErr option"

text \<open>
  \<open>Stream.Error\<close> returns the pointer \<open>stream.err\<close> converted to the interface type
  \<open>error\<close>. An interface value is \<open>nil\<close> only when it holds no dynamic type, so the
  result of the conversion is \<open>StreamErrPtr p\<close>, never \<open>NilError\<close>, whatever the
  pointer \<open>p\<close> is.
\<close>

datatype error_iface = NilError | StreamErrPtr "streamErr option"

definition NewStream :: Stream where
  "NewStream =
     \<lparr>Offset = 0, Buffer = [], err = Some \<lparr>se_err = None, se_offset = 0, se_buf = None\<rparr>\<rparr>"

definition NewGetStream :: "byte list \<Rightarrow> int \<Rightarrow> Stream" where
  "NewGetStream buf offset =
     \<lparr>Offset = offset, Buffer = buf,
      err = Some \<lparr>se_err = None, se_offset = 0, se_buf = Some buf\<rparr>\<rparr>"

definition Error :: "Stream \<Rightarrow> error_iface" where
  "Error stream = StreamErrPtr (err stream)"

text \<open>
  \<open>SetError\<close> assigns through the pointer \<open>stream.err\<close>, which panics when the
  pointer is \<open>nil\<close>.
\<close>

definition SetError :: "Stream \<Rightarrow> error option \<Rightarrow> Stream exec" where
  "SetError stream e =
     (case err stream of
        None \<Rightarrow> Panic
      | Some se \<Rightarrow>
          Return (stream\<lparr>err := Some (se\<lparr>se_err := e, se_offset := Offset stream\<rparr>)\<rparr>))"

definition GetOffset :: "Stream \<Rightarrow> int" where
  "GetOffset stream = Offset stream"

definition SetOffset :: "Stream \<Rightarrow> int \<Rightarrow> Stream" where
  "SetOffset stream offset = stream\<lparr>Offset := offset\<rparr>"

definition SetBuffer :: "Stream \<Rightarrow> byte list \<Rightarrow> Stream" where
  "SetBuffer stream buffer = stream\<lparr>Buffer := buffer\<rparr>"

definition GetBuffer :: "Stream \<Rightarrow> byte list" where
  "GetBuffer stream = Buffer stream"

text \<open>
  \<open>Feof\<close> has a pointer receiver; the model returns the stream after the call beside the
  result. \<open>len(stream.Buffer)\<close> is not negative, so \<open>len(stream.Buffer)-1\<close> does not
  overflow.
\<close>

definition Feof :: "Stream \<Rightarrow> bool \<times> Stream" where
  "Feof stream = (Offset stream \<ge> int (length (Buffer stream)) - 1, stream)"

text \<open>
  The end of every getter: \<open>if err != nil { stream.SetError(err) }; return b\<close>, on the
  stream whose offset the read has already advanced.
\<close>

definition latch :: "Stream \<Rightarrow> 'a \<Rightarrow> error option \<Rightarrow> ('a \<times> Stream) exec" where
  "latch stream b e =
     (case e of
        None \<Rightarrow> Return (b, stream)
      | Some _ \<Rightarrow>
          (case SetError stream e of
             Panic \<Rightarrow> Panic
           | Return stream' \<Rightarrow> Return (b, stream')))"

definition Get :: "Stream \<Rightarrow> int \<Rightarrow> (byte list \<times> Stream) exec" where
  "Get stream length' =
     (if err stream \<noteq> None then Return ([], stream)
      else
        (let length'' =
               (if length' < 0 then
                  wrap_int (wrap_int (int (length (Buffer stream)) - Offset stream) - 1)
                else length')
         in case Read (Buffer stream) (Offset stream) length'' of
              Panic \<Rightarrow> Panic
            | Return (b, e, offset') \<Rightarrow> latch (stream\<lparr>Offset := offset'\<rparr>) b e))"

definition GetBool :: "Stream \<Rightarrow> (bool \<times> Stream) exec" where
  "GetBool stream =
     (case ReadBool (Buffer stream) (Offset stream) of
        Panic \<Rightarrow> Panic
      | Return (b, e, offset') \<Rightarrow> latch (stream\<lparr>Offset := offset'\<rparr>) b e)"

definition GetByte :: "Stream \<Rightarrow> (byte \<times> Stream) exec" where
  "GetByte stream =
     (case ReadByte (Buffer stream) (Offset stream) of
        Panic \<Rightarrow> Panic
      | Return (b, e, offset') \<Rightarrow> latch (stream\<lparr>Offset := offset'\<rparr>) b e)"

definition GetUnsignedByte :: "Stream \<Rightarrow> (byte \<times> Stream) exec" where
  "GetUnsignedByte stream =
     (case ReadUnsignedByte (Buffer stream) (Offset stream) of
        Panic \<Rightarrow> Panic
      | Return (b, e, offset') \<Rightarrow> latch (stream\<lparr>Offset := offset'\<rparr>) b e)"

definition GetShort :: "Stream \<Rightarrow> (int16 \<times> Stream) exec" where
  "GetShort stream =
     (case ReadShort (Buffer stream) (Offset stream) of
        Panic \<Rightarrow> Panic
      | Return (b, e, offset') \<Rightarrow> latch (stream\<lparr>Offset := offset'\<rparr>) b e)"

definition GetUnsignedShort :: "Stream \<Rightarrow> (uint16 \<times> Stream) exec" where
  "GetUnsignedShort stream =
     (case ReadUnsignedShort (Buffer stream) (Offset stream) of
        Panic \<Rightarrow> Panic
      | Return (b, e, offset') \<Rightarrow> latch (stream\<lparr>Offset := offset'\<rparr>) b e)"

definition GetInt :: "Stream \<Rightarrow> (int32 \<times> Stream) exec" where
  "GetInt stream =
     (case ReadInt (Buffer stream) (Offset stream) of
        Panic \<Rightarrow> Panic
      | Return (b, e, offset') \<Rightarrow> latch (stream\<lparr>Offset := offset'\<rparr>) b e)"

definition GetUnsignedInt :: "Stream \<Rightarrow> (uint32 \<times> Stream) exec" where
  "GetUnsignedInt stream =
     (case ReadUnsignedInt (Buffer stream) (Offset stream) of
        Panic \<Rightarrow> Panic
      | Return (b, e, offset') \<Rightarrow> latch (stream\<lparr>Offset := offset'\<rparr>) b e)"

definition GetLong :: "Stream \<Rightarrow> (int64 \<times> Stream) exec" where
  "GetLong stream =
     (case ReadLong (Buffer stream) (Offset stream) of
        Panic \<Rightarrow> Panic
      | Return (b, e, offset') \<Rightarrow> latch (stream\<lparr>Offset := offset'\<rparr>) b e)"

definition GetUnsignedLong :: "Stream \<Rightarrow> (uint64 \<times> Stream) exec" where
  "GetUnsignedLong stream =
     (case ReadUnsignedLong (Buffer stream) (Offset stream) of
        Panic \<Rightarrow> Panic
      | Return (b, e, offset') \<Rightarrow> latch (stream\<lparr>Offset := offset'\<rparr>) b e)"

definition GetFloat :: "Stream \<Rightarrow> (float32 \<times> Stream) exec" where
  "GetFloat stream =
     (case ReadFloat (Buffer stream) (Offset stream) of
        Panic \<Rightarrow> Panic
      | Return (b, e, offset') \<Rightarrow> latch (stream\<lparr>Offset := offset'\<rparr>) b e)"

definition GetDouble :: "Stream \<Rightarrow> (float64 \<times> Stream) exec" where
  "GetDouble stream =
     (case ReadDouble (Buffer stream) (Offset stream) of
        Panic \<Rightarrow> Panic
      | Return (b, e, offset') \<Rightarrow> latch (stream\<lparr>Offset := offset'\<rparr>) b e)"

definition GetLittleShort :: "Stream \<Rightarrow> (int16 \<times> Stream) exec" where
  "GetLittleShort stream =
     (case ReadLittleShort (Buffer stream) (Offset stream) of
        Panic \<Rightarrow> Panic
      | Return (b, e, offset') \<Rightarrow> latch (stream\<lparr>Offset := offset'\<rparr>) b e)"

definition GetLittleUnsignedShort :: "Stream \<Rightarrow> (uint16 \<times> Stream) exec" where
  "GetLittleUnsignedShort stream =
     (case ReadLittleUnsignedShort (Buffer stream) (Offset stream) of
        Panic \<Rightarrow> Panic
      | Return (b, e, offset') \<Rightarrow> latch (stream\<lparr>Offset := offset'\<rparr>) b e)"

definition GetLittleInt :: "Stream \<Rightarrow> (int32 \<times> Stream) exec" where
  "GetLittleInt stream =
     (case ReadLittleInt (Buffer stream) (Offset stream) of
        Panic \<Rightarrow> Panic
      | Return (b, e, offset') \<Rightarrow> latch (stream\<lparr>Offset := offset'\<rparr>) b e)"

definition GetLittleUnsignedInt :: "Stream \<Rightarrow> (uint32 \<times> Stream) exec" where
  "GetLittleUnsignedInt stream =
     (case ReadLittleUnsignedInt (Buffer stream) (Offset stream) of
        Panic \<Rightarrow> Panic
      | Return (b, e, offset') \<Rightarrow> latch (stream\<lparr>Offset := offset'\<rparr>) b e)"

definition GetLittleLong :: "Stream \<Rightarrow> (int64 \<times> Stream) exec" where
  "GetLittleLong stream =
     (case ReadLittleLong (Buffer stream) (Offset stream) of
        Panic \<Rightarrow> Panic
      | Return (b, e, offset') \<Rightarrow> latch (stream\<lparr>Offset := offset'\<rparr>) b e)"

definition GetLittleUnsignedLong :: "Stream \<Rightarrow> (uint64 \<times> Stream) exec" where
  "GetLittleUnsignedLong stream =
     (case ReadLittleUnsignedLong (Buffer stream) (Offset stream) of
        Panic \<Rightarrow> Panic
      | Return (b, e, offset') \<Rightarrow> latch (stream\<lparr>Offset := offset'\<rparr>) b e)"

definition GetLittleFloat :: "Stream \<Rightarrow> (float32 \<times> Stream) exec" where
  "GetLittleFloat stream =
     (case ReadLittleFloat (Buffer stream) (Offset stream) of
        Panic \<Rightarrow> Panic
      | Return (b, e, offset') \<Rightarrow> latch (stream\<lparr>Offset := offset'\<rparr>) b e)"

definition GetLittleDouble :: "Stream \<Rightarrow> (float64 \<times> Stream) exec" where
  "GetLittleDouble stream =
     (case ReadLittleDouble (Buffer stream) (Offset stream) of
        Panic \<Rightarrow> Panic
      | Return (b, e, offset') \<Rightarrow> latch (stream\<lparr>Offset := offset'\<rparr>) b e)"

definition GetTriad :: "Stream \<Rightarrow> (uint32 \<times> Stream) exec" where
  "GetTriad stream =
     (case ReadBigTriad (Buffer stream) (Offset stream) of
        Panic \<Rightarrow> Panic
      | Return (b, e, offset') \<Rightarrow> latch (stream\<lparr>Offset := offset'\<rparr>) b e)"

definition GetLittleTriad :: "Stream \<Rightarrow> (uint32 \<times> Stream) exec" where
  "GetLittleTriad stream =
     (case ReadLittleTriad (Buffer stream) (Offset stream) of
        Panic \<Rightarrow> Panic
      | Return (b, e, offset') \<Rightarrow> latch (stream\<lparr>Offset := offset'\<rparr>) b e)"

definition GetVarInt :: "Stream \<Rightarrow> (int32 \<times> Stream) exec" where
  "GetVarInt stream =
     (if err stream \<noteq> None then Return (0, stream)
      else
        (case ReadVarInt (Buffer stream) (Offset stream) of
           Panic \<Rightarrow> Panic
         | Return (i, e, offset') \<Rightarrow> latch (stream\<lparr>Offset := offset'\<rparr>) i e))"

definition GetVarLong :: "Stream \<Rightarrow> (int64 \<times> Stream) exec" where
  "GetVarLong stream =
     (if err stream \<noteq> None then Return (0, stream)
      else
        (case ReadVarLong (Buffer stream) (Offset stream) of
           Panic \<Rightarrow> Panic
         | Return (i, e, offset') \<Rightarrow> latch (stream\<lparr>Offset := offset'\<rparr>) i e))"

definition GetUnsignedVarInt :: "Stream \<Rightarrow> (uint32 \<times> Stream) exec" where
  "GetUnsignedVarInt stream =
     (if err stream \<noteq> None then Return (0, stream)
      else
        (case ReadUnsignedVarInt (Buffer stream) (Offset stream) of
           Panic \<Rightarrow> Panic
         | Return (i, e, offset') \<Rightarrow> latch (stream\<lparr>Offset := offset'\<rparr>) i e))"

definition GetUnsignedVarLong :: "Stream \<Rightarrow> (uint64 \<times> Stream) exec" where
  "GetUnsignedVarLong stream =
     (if err stream \<noteq> None then Return (0, stream)
      else
        (case ReadUnsignedVarLong (Buffer stream) (Offset stream) of
           Panic \<Rightarrow> Panic
         | Return (i, e, offset') \<Rightarrow> latch (stream\<lparr>Offset := offset'\<rparr>) i e))"

definition GetString :: "Stream \<Rightarrow> (byte list \<times> Stream) exec" where
  "GetString stream =
     (if err stream \<noteq> None then Return ([], stream)
      else
        (case ReadString (Buffer stream) (Offset stream) of
           Panic \<Rightarrow> Panic
         | Return (i, e, offset') \<Rightarrow> latch (stream\<lparr>Offset := offset'\<rparr>) i e))"

definition GetLengthPrefixedBytes :: "Stream \<Rightarrow> (byte list \<times> Stream) exec" where
  "GetLengthPrefixedBytes stream = GetString stream"

definition PutBool :: "Stream \<Rightarrow> bool \<Rightarrow> Stream" where
  "PutBool stream v = stream\<lparr>Buffer := WriteBool (Buffer stream) v\<rparr>"

definition PutByte :: "Stream \<Rightarrow> byte \<Rightarrow> Stream" where
  "PutByte stream v = stream\<lparr>Buffer := WriteByte (Buffer stream) v\<rparr>"

definition PutUnsignedByte :: "Stream \<Rightarrow> byte \<Rightarrow> Stream" where
  "PutUnsignedByte stream v = stream\<lparr>Buffer := WriteUnsignedByte (Buffer stream) v\<rparr>"

definition PutShort :: "Stream \<Rightarrow> int16 \<Rightarrow> Stream" where
  "PutShort stream v = stream\<lparr>Buffer := WriteShort (Buffer stream) v\<rparr>"

definition PutUnsignedShort :: "Stream \<Rightarrow> uint16 \<Rightarrow> Stream" where
  "PutUnsignedShort stream v = stream\<lparr>Buffer := WriteUnsignedShort (Buffer stream) v\<rparr>"

definition PutInt :: "Stream \<Rightarrow> int32 \<Rightarrow> Stream" where
  "PutInt stream v = stream\<lparr>Buffer := WriteInt (Buffer stream) v\<rparr>"

definition PutUnsignedInt :: "Stream \<Rightarrow> uint32 \<Rightarrow> Stream" where
  "PutUnsignedInt stream v = stream\<lparr>Buffer := WriteUnsignedInt (Buffer stream) v\<rparr>"

definition PutLong :: "Stream \<Rightarrow> int64 \<Rightarrow> Stream" where
  "PutLong stream v = stream\<lparr>Buffer := WriteLong (Buffer stream) v\<rparr>"

definition PutUnsignedLong :: "Stream \<Rightarrow> uint64 \<Rightarrow> Stream" where
  "PutUnsignedLong stream v = stream\<lparr>Buffer := WriteUnsignedLong (Buffer stream) v\<rparr>"

definition PutFloat :: "Stream \<Rightarrow> float32 \<Rightarrow> Stream" where
  "PutFloat stream v = stream\<lparr>Buffer := WriteFloat (Buffer stream) v\<rparr>"

definition PutDouble :: "Stream \<Rightarrow> float64 \<Rightarrow> Stream" where
  "PutDouble stream v = stream\<lparr>Buffer := WriteDouble (Buffer stream) v\<rparr>"

definition PutVarInt :: "Stream \<Rightarrow> int32 \<Rightarrow> Stream" where
  "PutVarInt stream v = stream\<lparr>Buffer := WriteVarInt (Buffer stream) v\<rparr>"

definition PutVarLong :: "Stream \<Rightarrow> int64 \<Rightarrow> Stream" where
  "PutVarLong stream v = stream\<lparr>Buffer := WriteVarLong (Buffer stream) v\<rparr>"

definition PutUnsignedVarInt :: "Stream \<Rightarrow> uint32 \<Rightarrow> Stream" where
  "PutUnsignedVarInt stream v = stream\<lparr>Buffer := WriteUnsignedVarInt (Buffer stream) v\<rparr>"

definition PutUnsignedVarLong :: "Stream \<Rightarrow> uint64 \<Rightarrow> Stream" where
  "PutUnsignedVarLong stream v = stream\<lparr>Buffer := WriteUnsignedVarLong (Buffer stream) v\<rparr>"

definition PutLittleShort :: "Stream \<Rightarrow> int16 \<Rightarrow> Stream" where
  "PutLittleShort stream v = stream\<lparr>Buffer := WriteLittleShort (Buffer stream) v\<rparr>"

definition PutLittleUnsignedShort :: "Stream \<Rightarrow> uint16 \<Rightarrow> Stream" where
  "PutLittleUnsignedShort stream v = stream\<lparr>Buffer := WriteLittleUnsignedShort (Buffer stream) v\<rparr>"

definition PutLittleInt :: "Stream \<Rightarrow> int32 \<Rightarrow> Stream" where
  "PutLittleInt stream v = stream\<lparr>Buffer := WriteLittleInt (Buffer stream) v\<rparr>"

definition PutLittleUnsignedInt :: "Stream \<Rightarrow> uint32 \<Rightarrow> Stream" where
  "PutLittleUnsignedInt stream v = stream\<lparr>Buffer := WriteLittleUnsignedInt (Buffer stream) v\<rparr>"

definition PutLittleLong :: "Stream \<Rightarrow> int64 \<Rightarrow> Stream" where
  "PutLittleLong stream v = stream\<lparr>Buffer := WriteLittleLong (Buffer stream) v\<rparr>"

definition PutLittleUnsignedLong :: "Stream \<Rightarrow> uint64 \<Rightarrow> Stream" where
  "PutLittleUnsignedLong stream v = stream\<lparr>Buffer := WriteLittleUnsignedLong (Buffer stream) v\<rparr>"

definition PutLittleFloat :: "Stream \<Rightarrow> float32 \<Rightarrow> Stream" where
  "PutLittleFloat stream v = stream\<lparr>Buffer := WriteLittleFloat (Buffer stream) v\<rparr>"

definition PutLittleDouble :: "Stream \<Rightarrow> float64 \<Rightarrow> Stream" where
  "PutLittleDouble stream v = stream\<lparr>Buffer := WriteLittleDouble (Buffer stream) v\<rparr>"

definition PutTriad :: "Stream \<Rightarrow> uint32 \<Rightarrow> Stream" where
  "PutTriad stream v = stream\<lparr>Buffer := WriteBigTriad (Buffer stream) v\<rparr>"

definition PutLittleTriad :: "Stream \<Rightarrow> uint32 \<Rightarrow> Stream" where
  "PutLittleTriad stream v = stream\<lparr>Buffer := WriteLittleTriad (Buffer stream) v\<rparr>"

definition PutString :: "Stream \<Rightarrow> byte list \<Rightarrow> Stream" where
  "PutString stream v =
     stream\<lparr>Buffer := WriteUnsignedVarInt (Buffer stream) (of_nat (length v)) @ v\<rparr>"

definition PutBytes :: "Stream \<Rightarrow> byte list \<Rightarrow> Stream" where
  "PutBytes stream bytes = stream\<lparr>Buffer := Buffer stream @ bytes\<rparr>"

definition PutLengthPrefixedBytes :: "Stream \<Rightarrow> byte list \<Rightarrow> Stream" where
  "PutLengthPrefixedBytes stream bytes =
     PutBytes (PutUnsignedVarInt stream (of_nat (length bytes))) bytes"

definition ResetStream :: "Stream \<Rightarrow> Stream" where
  "ResetStream stream = stream\<lparr>Offset := 0, Buffer := []\<rparr>"

section \<open>Verification\<close>

subsection \<open>Read on a buffer within the range of int\<close>

lemma wrap_int_id: "MinInt \<le> x \<Longrightarrow> x \<le> MaxInt \<Longrightarrow> wrap_int x = x"
  unfolding wrap_int_def MinInt_def MaxInt_def
  by (simp add: mod_pos_pos_trivial)

lemma MaxInt_pos: "0 \<le> MaxInt" "MinInt \<le> 0"
  by (simp_all add: MaxInt_def MinInt_def)

lemma Read_in_range:
  assumes "0 \<le> offset" "0 \<le> length'" "offset + length' \<le> MaxInt"
  shows "Read buffer offset length' =
           (if int (length buffer) < offset + length'
            then Return ([], Some (New ''Not enough bytes to read''), offset)
            else Return (take (nat length') (drop (nat offset) buffer), None, offset + length'))"
proof -
  have "MinInt \<le> offset + length'" using assms MaxInt_pos by linarith
  then have "wrap_int (offset + length') = offset + length'"
    using assms by (simp add: wrap_int_id)
  then show ?thesis using assms by (simp add: Read_def Let_def)
qed

lemma Read_append:
  assumes "length enc = n" "int (length buffer) + int n \<le> MaxInt"
  shows "Read (buffer @ enc) (int (length buffer)) (int n) =
           Return (enc, None, int (length buffer) + int n)"
  using assms by (simp add: Read_in_range)

lemma Read_append1:
  "int (length buffer) + 1 \<le> MaxInt \<Longrightarrow>
   Read (buffer @ [a]) (int (length buffer)) 1 = Return ([a], None, int (length buffer) + 1)"
  using Read_append [of "[a]" 1 buffer] by simp

lemma Read_append2:
  "int (length buffer) + 2 \<le> MaxInt \<Longrightarrow>
   Read (buffer @ [a, b]) (int (length buffer)) 2 = Return ([a, b], None, int (length buffer) + 2)"
  using Read_append [of "[a, b]" 2 buffer] by simp

lemma Read_append3:
  "int (length buffer) + 3 \<le> MaxInt \<Longrightarrow>
   Read (buffer @ [a, b, c]) (int (length buffer)) 3 =
     Return ([a, b, c], None, int (length buffer) + 3)"
  using Read_append [of "[a, b, c]" 3 buffer] by simp

lemma Read_append4:
  "int (length buffer) + 4 \<le> MaxInt \<Longrightarrow>
   Read (buffer @ [a, b, c, d]) (int (length buffer)) 4 =
     Return ([a, b, c, d], None, int (length buffer) + 4)"
  using Read_append [of "[a, b, c, d]" 4 buffer] by simp

lemma Read_append8:
  "int (length buffer) + 8 \<le> MaxInt \<Longrightarrow>
   Read (buffer @ [a, b, c, d, e, f, g, h]) (int (length buffer)) 8 =
     Return ([a, b, c, d, e, f, g, h], None, int (length buffer) + 8)"
  using Read_append [of "[a, b, c, d, e, f, g, h]" 8 buffer] by simp

subsection \<open>Reassembling a word from its bytes\<close>

lemma bit_byte_of:
  "bit (push_bit k (ucast (ucast (drop_bit k v) :: byte)) :: 'a::len word) n \<longleftrightarrow>
     k \<le> n \<and> n < k + 8 \<and> bit (v :: 'a word) n"
  by (auto simp: bit_simps dest: bit_imp_le_length)

lemma bit_byte0_of:
  "bit (ucast (ucast v :: byte) :: 'a::len word) n \<longleftrightarrow> n < 8 \<and> bit (v :: 'a word) n"
  by (auto simp: bit_simps dest: bit_imp_le_length)

lemma bytes16:
  fixes v :: "16 word"
  shows "ucast (ucast v :: byte) OR push_bit 8 (ucast (ucast (drop_bit 8 v) :: byte)) = v"
  apply (rule bit_word_eqI)
  apply (simp only: bit_or_iff bit_byte_of bit_byte0_of)
  subgoal for n by (cases "bit v n") (simp_all, arith)
  done

lemma bytes32:
  fixes v :: "32 word"
  shows "ucast (ucast v :: byte) OR push_bit 8 (ucast (ucast (drop_bit 8 v) :: byte))
     OR push_bit 16 (ucast (ucast (drop_bit 16 v) :: byte))
     OR push_bit 24 (ucast (ucast (drop_bit 24 v) :: byte)) = v"
  apply (rule bit_word_eqI)
  apply (simp only: bit_or_iff bit_byte_of bit_byte0_of)
  subgoal for n by (cases "bit v n") (simp_all, arith)
  done

lemma bytes64:
  fixes v :: "64 word"
  shows "ucast (ucast v :: byte) OR push_bit 8 (ucast (ucast (drop_bit 8 v) :: byte))
     OR push_bit 16 (ucast (ucast (drop_bit 16 v) :: byte))
     OR push_bit 24 (ucast (ucast (drop_bit 24 v) :: byte))
     OR push_bit 32 (ucast (ucast (drop_bit 32 v) :: byte))
     OR push_bit 40 (ucast (ucast (drop_bit 40 v) :: byte))
     OR push_bit 48 (ucast (ucast (drop_bit 48 v) :: byte))
     OR push_bit 56 (ucast (ucast (drop_bit 56 v) :: byte)) = v"
  apply (rule bit_word_eqI)
  apply (simp only: bit_or_iff bit_byte_of bit_byte0_of)
  subgoal for n by (cases "bit v n") (simp_all, arith)
  done


lemma nth4:
  "[a, b, c, d] ! 0 = a" "[a, b, c, d] ! 1 = b" "[a, b, c, d] ! 2 = c" "[a, b, c, d] ! 3 = d"
  by simp_all

lemma nth8:
  "[a, b, c, d, e, f, g, h] ! 0 = a" "[a, b, c, d, e, f, g, h] ! 1 = b"
  "[a, b, c, d, e, f, g, h] ! 2 = c" "[a, b, c, d, e, f, g, h] ! 3 = d"
  "[a, b, c, d, e, f, g, h] ! 4 = e" "[a, b, c, d, e, f, g, h] ! 5 = f"
  "[a, b, c, d, e, f, g, h] ! 6 = g" "[a, b, c, d, e, f, g, h] ! 7 = h"
  by simp_all

lemmas roundtrip_simps =
  Read_append1 Read_append2 Read_append4 Read_append8 exec.case prod.case option.case Let_def
  nth_Cons_0 nth_Cons_Suc One_nat_def nth4 nth8 bytes16 bytes32 bytes64
  float32.sel float64.sel float32.collapse float64.collapse


subsection \<open>Round trips of the fixed-width kinds\<close>

lemma Bool_roundtrip:
  "int (length buffer) + 1 \<le> MaxInt \<Longrightarrow>
   ReadBool (WriteBool buffer v) (int (length buffer)) =
     Return (v, None, int (length buffer) + 1)"
  unfolding ReadBool_def WriteBool_def WriteByte_def Write_def
  by (cases v) (simp_all add: Read_append1)

lemma Byte_roundtrip:
  "int (length buffer) + 1 \<le> MaxInt \<Longrightarrow>
   ReadByte (WriteByte buffer v) (int (length buffer)) =
     Return (v, None, int (length buffer) + 1)"
  unfolding ReadByte_def WriteByte_def Write_def by (simp only: roundtrip_simps)

lemma UnsignedByte_roundtrip:
  "int (length buffer) + 1 \<le> MaxInt \<Longrightarrow>
   ReadUnsignedByte (WriteUnsignedByte buffer v) (int (length buffer)) =
     Return (v, None, int (length buffer) + 1)"
  unfolding ReadUnsignedByte_def WriteUnsignedByte_def WriteByte_def Write_def by (simp only: roundtrip_simps)

lemma Short_roundtrip:
  "int (length buffer) + 2 \<le> MaxInt \<Longrightarrow>
   ReadShort (WriteShort buffer v) (int (length buffer)) =
     Return (v, None, int (length buffer) + 2)"
  unfolding ReadShort_def WriteShort_def by (simp only: roundtrip_simps)

lemma UnsignedShort_roundtrip:
  "int (length buffer) + 2 \<le> MaxInt \<Longrightarrow>
   ReadUnsignedShort (WriteUnsignedShort buffer v) (int (length buffer)) =
     Return (v, None, int (length buffer) + 2)"
  unfolding ReadUnsignedShort_def WriteUnsignedShort_def by (simp only: roundtrip_simps)

lemma Int_roundtrip:
  "int (length buffer) + 4 \<le> MaxInt \<Longrightarrow>
   ReadInt (WriteInt buffer v) (int (length buffer)) =
     Return (v, None, int (length buffer) + 4)"
  unfolding ReadInt_def WriteInt_def by (simp only: roundtrip_simps)

lemma UnsignedInt_roundtrip:
  "int (length buffer) + 4 \<le> MaxInt \<Longrightarrow>
   ReadUnsignedInt (WriteUnsignedInt buffer v) (int (length buffer)) =
     Return (v, None, int (length buffer) + 4)"
  unfolding ReadUnsignedInt_def WriteUnsignedInt_def by (simp only: roundtrip_simps)

lemma Long_roundtrip:
  "int (length buffer) + 8 \<le> MaxInt \<Longrightarrow>
   ReadLong (WriteLong buffer v) (int (length buffer)) =
     Return (v, None, int (length buffer) + 8)"
  unfolding ReadLong_def WriteLong_def by (simp only: roundtrip_simps)

lemma UnsignedLong_roundtrip:
  "int (length buffer) + 8 \<le> MaxInt \<Longrightarrow>
   ReadUnsignedLong (WriteUnsignedLong buffer v) (int (length buffer)) =
     Return (v, None, int (length buffer) + 8)"
  unfolding ReadUnsignedLong_def WriteUnsignedLong_def by (simp only: roundtrip_simps)

lemma Float_roundtrip:
  "int (length buffer) + 4 \<le> MaxInt \<Longrightarrow>
   ReadFloat (WriteFloat buffer v) (int (length buffer)) =
     Return (v, None, int (length buffer) + 4)"
  unfolding ReadFloat_def WriteFloat_def by (simp only: roundtrip_simps)

lemma Double_roundtrip:
  "int (length buffer) + 8 \<le> MaxInt \<Longrightarrow>
   ReadDouble (WriteDouble buffer v) (int (length buffer)) =
     Return (v, None, int (length buffer) + 8)"
  unfolding ReadDouble_def WriteDouble_def by (simp only: roundtrip_simps)

lemma LittleShort_roundtrip:
  "int (length buffer) + 2 \<le> MaxInt \<Longrightarrow>
   ReadLittleShort (WriteLittleShort buffer v) (int (length buffer)) =
     Return (v, None, int (length buffer) + 2)"
  unfolding ReadLittleShort_def WriteLittleShort_def by (simp only: roundtrip_simps)

lemma LittleUnsignedShort_roundtrip:
  "int (length buffer) + 2 \<le> MaxInt \<Longrightarrow>
   ReadLittleUnsignedShort (WriteLittleUnsignedShort buffer v) (int (length buffer)) =
     Return (v, None, int (length buffer) + 2)"
  unfolding ReadLittleUnsignedShort_def WriteLittleUnsignedShort_def by (simp only: roundtrip_simps)

lemma LittleInt_roundtrip:
  "int (length buffer) + 4 \<le> MaxInt \<Longrightarrow>
   ReadLittleInt (WriteLittleInt buffer v) (int (length buffer)) =
     Return (v, None, int (length buffer) + 4)"
  unfolding ReadLittleInt_def WriteLittleInt_def by (simp only: roundtrip_simps)

lemma LittleUnsignedInt_roundtrip:
  "int (length buffer) + 4 \<le> MaxInt \<Longrightarrow>
   ReadLittleUnsignedInt (WriteLittleUnsignedInt buffer v) (int (length buffer)) =
     Return (v, None, int (length buffer) + 4)"
  unfolding ReadLittleUnsignedInt_def WriteLittleUnsignedInt_def by (simp only: roundtrip_simps)

lemma LittleLong_roundtrip:
  "int (length buffer) + 8 \<le> MaxInt \<Longrightarrow>
   ReadLittleLong (WriteLittleLong buffer v) (int (length buffer)) =
     Return (v, None, int (length buffer) + 8)"
  unfolding ReadLittleLong_def WriteLittleLong_def by (simp only: roundtrip_simps)

lemma LittleUnsignedLong_roundtrip:
  "int (length buffer) + 8 \<le> MaxInt \<Longrightarrow>
   ReadLittleUnsignedLong (WriteLittleUnsignedLong buffer v) (int (length buffer)) =
     Return (v, None, int (length buffer) + 8)"
  unfolding ReadLittleUnsignedLong_def WriteLittleUnsignedLong_def by (simp only: roundtrip_simps)

lemma LittleFloat_roundtrip:
  "int (length buffer) + 4 \<le> MaxInt \<Longrightarrow>
   ReadLittleFloat (WriteLittleFloat buffer v) (int (length buffer)) =
     Return (v, None, int (length buffer) + 4)"
  unfolding ReadLittleFloat_def WriteLittleFloat_def by (simp only: roundtrip_simps)

lemma LittleDouble_roundtrip:
  "int (length buffer) + 8 \<le> MaxInt \<Longrightarrow>
   ReadLittleDouble (WriteLittleDouble buffer v) (int (length buffer)) =
     Return (v, None, int (length buffer) + 8)"
  unfolding ReadLittleDouble_def WriteLittleDouble_def by (simp only: roundtrip_simps)

text \<open>
  Claim C1. For every fixed-width kind (bool, byte, unsigned byte, 16-, 32- and 64-bit signed
  and unsigned integers, 32-bit float, 64-bit double), big-endian and little-endian, writing a
  value to a buffer and reading at the offset where its encoding starts (the length of the
  buffer before the write) returns exactly that value with no error, and advances the offset
  by the width of the kind. The value is arbitrary, so 0, -1 and the minimum and maximum of
  each width are covered, and a float or double is returned with the same bits, whatever
  they are (NaN and infinity patterns included). The buffer after the write is a Go slice,
  whose length fits an int.
\<close>

theorem fixed_width_roundtrip:
  assumes "int (length buffer) + 8 \<le> MaxInt"
  shows "ReadBool (WriteBool buffer vbool) (int (length buffer)) =
           Return (vbool, None, int (length buffer) + 1) \<and>
         ReadByte (WriteByte buffer vbyte) (int (length buffer)) =
           Return (vbyte, None, int (length buffer) + 1) \<and>
         ReadUnsignedByte (WriteUnsignedByte buffer vubyte) (int (length buffer)) =
           Return (vubyte, None, int (length buffer) + 1) \<and>
         ReadShort (WriteShort buffer vshort) (int (length buffer)) =
           Return (vshort, None, int (length buffer) + 2) \<and>
         ReadUnsignedShort (WriteUnsignedShort buffer vushort) (int (length buffer)) =
           Return (vushort, None, int (length buffer) + 2) \<and>
         ReadInt (WriteInt buffer vint) (int (length buffer)) =
           Return (vint, None, int (length buffer) + 4) \<and>
         ReadUnsignedInt (WriteUnsignedInt buffer vuint) (int (length buffer)) =
           Return (vuint, None, int (length buffer) + 4) \<and>
         ReadLong (WriteLong buffer vlong) (int (length buffer)) =
           Return (vlong, None, int (length buffer) + 8) \<and>
         ReadUnsignedLong (WriteUnsignedLong buffer vulong) (int (length buffer)) =
           Return (vulong, None, int (length buffer) + 8) \<and>
         ReadFloat (WriteFloat buffer vfloat) (int (length buffer)) =
           Return (vfloat, None, int (length buffer) + 4) \<and>
         ReadDouble (WriteDouble buffer vdouble) (int (length buffer)) =
           Return (vdouble, None, int (length buffer) + 8) \<and>
         ReadLittleShort (WriteLittleShort buffer vlshort) (int (length buffer)) =
           Return (vlshort, None, int (length buffer) + 2) \<and>
         ReadLittleUnsignedShort (WriteLittleUnsignedShort buffer vlushort) (int (length buffer)) =
           Return (vlushort, None, int (length buffer) + 2) \<and>
         ReadLittleInt (WriteLittleInt buffer vlint) (int (length buffer)) =
           Return (vlint, None, int (length buffer) + 4) \<and>
         ReadLittleUnsignedInt (WriteLittleUnsignedInt buffer vluint) (int (length buffer)) =
           Return (vluint, None, int (length buffer) + 4) \<and>
         ReadLittleLong (WriteLittleLong buffer vllong) (int (length buffer)) =
           Return (vllong, None, int (length buffer) + 8) \<and>
         ReadLittleUnsignedLong (WriteLittleUnsignedLong buffer vlulong) (int (length buffer)) =
           Return (vlulong, None, int (length buffer) + 8) \<and>
         ReadLittleFloat (WriteLittleFloat buffer vlfloat) (int (length buffer)) =
           Return (vlfloat, None, int (length buffer) + 4) \<and>
         ReadLittleDouble (WriteLittleDouble buffer vldouble) (int (length buffer)) =
           Return (vldouble, None, int (length buffer) + 8)"
proof -
  have h: "int (length buffer) + 1 \<le> MaxInt" "int (length buffer) + 2 \<le> MaxInt"
    "int (length buffer) + 4 \<le> MaxInt"
    using assms by simp_all
  show ?thesis
    by (intro conjI Bool_roundtrip Byte_roundtrip UnsignedByte_roundtrip Short_roundtrip
        UnsignedShort_roundtrip Int_roundtrip UnsignedInt_roundtrip Long_roundtrip
        UnsignedLong_roundtrip Float_roundtrip Double_roundtrip LittleShort_roundtrip
        LittleUnsignedShort_roundtrip LittleInt_roundtrip LittleUnsignedInt_roundtrip
        LittleLong_roundtrip LittleUnsignedLong_roundtrip LittleFloat_roundtrip
        LittleDouble_roundtrip h assms)
qed

theorem fixed_width_roundtrip_witness:
  "int (length [0xAB :: byte]) + 8 \<le> MaxInt \<and>
   ReadBool (WriteBool [0xAB] True) 1 = Return (True, None, 2) \<and>
   ReadShort (WriteShort [0xAB] (- 1)) 1 = Return (- 1, None, 3) \<and>
   ReadInt (WriteInt [0xAB] 0x80000000) 1 = Return (0x80000000, None, 5) \<and>
   ReadLittleLong (WriteLittleLong [0xAB] 0x7FFFFFFFFFFFFFFF) 1 =
     Return (0x7FFFFFFFFFFFFFFF, None, 9) \<and>
   ReadDouble (WriteDouble [0xAB] (Float64frombits 0x7FF8000000000001)) 1 =
     Return (Float64frombits 0x7FF8000000000001, None, 9) \<and>
   ReadLittleFloat (WriteLittleFloat [0xAB] (Float32frombits 0x7F800000)) 1 =
     Return (Float32frombits 0x7F800000, None, 5)"
proof -
  have h: "int (length [0xAB :: byte]) + 8 \<le> MaxInt"
    by (simp add: MaxInt_def)
  from fixed_width_roundtrip [OF h, where vbool = True and vshort = "- 1"
      and vint = "0x80000000" and vllong = "0x7FFFFFFFFFFFFFFF"
      and vdouble = "Float64frombits 0x7FF8000000000001"
      and vlfloat = "Float32frombits 0x7F800000"]
  show ?thesis using h by simp
qed

subsection \<open>The read contract\<close>

text \<open>
  Where the sum of offset and length stays within the range of int: for every buffer, every
  offset with 0 \<le> offset \<le> length of the buffer and every length \<ge> 0, \<open>Read\<close>
  fails with the error "Not enough bytes to read" exactly when offset + length exceeds the
  length of the buffer, and then leaves the offset unchanged; otherwise it returns the slice
  of exactly length bytes that starts at offset and advances the offset by length.
\<close>

lemma Read_contract:
  assumes "0 \<le> offset" and "offset \<le> int (length buffer)" and "0 \<le> length'"
    and "offset + length' \<le> MaxInt"
  shows "Read buffer offset length' =
           (if int (length buffer) < offset + length'
            then Return ([], Some (New ''Not enough bytes to read''), offset)
            else Return (take (nat length') (drop (nat offset) buffer), None, offset + length'))
         \<and> (int (length buffer) < offset + length' \<or>
              int (length (take (nat length') (drop (nat offset) buffer))) = length')"
  using assms by (auto simp: Read_in_range)

lemma Read_contract_example:
  "Read [1, 2, 3] 1 2 = Return ([2, 3], None, 3) \<and>
   Read [1, 2, 3] 2 2 = Return ([], Some (New ''Not enough bytes to read''), 2)"
  using Read_contract [of 1 "[1, 2, 3]" 2] Read_contract [of 2 "[1, 2, 3]" 2]
  by (simp add: MaxInt_def)

text \<open>
  Claim C2, on the code. On the one-byte buffer at offset 1 with length \<open>MaxInt\<close>, an
  offset within the buffer and a length that is not negative, offset + length exceeds the
  length of the buffer; the sum wraps around to \<open>MinInt\<close>, the test
  \<open>len(*buffer) < *offset+length\<close> is false, and the slice expression panics instead of
  \<open>Read\<close> returning its error.
\<close>

theorem Read_panics_on_overflow:
  "(0 :: int) \<le> 1 \<and> 1 \<le> int (length [0 :: byte]) \<and> 0 \<le> MaxInt \<and>
   int (length [0 :: byte]) < 1 + MaxInt \<and> wrap_int (1 + MaxInt) = MinInt \<and>
   Read [0] 1 MaxInt = Panic"
  by (simp add: Read_def wrap_int_def MaxInt_def MinInt_def Let_def)

subsection \<open>Zig-zag\<close>

lemma neg_and_one: "- (w AND 1) = (if bit w 0 then - 1 else (0 :: 'a::len word))"
  by (simp add: and_one_eq mod_2_eq_odd bit_0)

lemma signed_drop_bit_top:
  "signed_drop_bit (LENGTH('a) - 1) (w :: 'a::len word) =
     (if bit w (LENGTH('a) - 1) then - 1 else 0)"
proof (rule bit_word_eqI)
  fix n assume "n < LENGTH('a)"
  then show "bit (signed_drop_bit (LENGTH('a) - 1) w) n \<longleftrightarrow>
             bit (if bit w (LENGTH('a) - 1) then - 1 else 0 :: 'a word) n"
    by (cases "n = 0") (simp_all add: bit_signed_drop_bit_iff)
qed

lemma bit_shl1:
  "bit (push_bit 1 (v :: 'a::len word)) n \<longleftrightarrow> 0 < n \<and> n < LENGTH('a) \<and> bit v (n - 1)"
  by (cases n) (auto simp: bit_simps bit_0 simp del: push_bit_Suc)

lemma bit_shr1: "bit (drop_bit 1 (v :: 'a::len word)) n \<longleftrightarrow> bit v (Suc n)"
  by (simp add: bit_simps)

lemma zigzag_roundtrip:
  fixes v :: "'a::len word"
  shows "drop_bit 1 (push_bit 1 v XOR signed_drop_bit (LENGTH('a) - 1) v)
         XOR - ((push_bit 1 v XOR signed_drop_bit (LENGTH('a) - 1) v) AND 1) = v"
proof -
  define u where "u = push_bit 1 v XOR signed_drop_bit (LENGTH('a) - 1) v"
  have u0: "bit u 0 \<longleftrightarrow> bit v (LENGTH('a) - 1)"
    unfolding u_def by (simp only: bit_xor_iff bit_shl1 signed_drop_bit_top) simp
  have uS: "bit u (Suc n) \<longleftrightarrow> Suc n < LENGTH('a) \<and> (bit v n \<noteq> bit v (LENGTH('a) - 1))" for n
    unfolding u_def by (simp only: bit_xor_iff bit_shl1 signed_drop_bit_top) (auto simp: bit_simps)
  have "drop_bit 1 u XOR - (u AND 1) = v"
  proof (rule bit_word_eqI)
    fix n assume n: "n < LENGTH('a)"
    have "bit (drop_bit 1 u XOR - (u AND 1)) n \<longleftrightarrow> (bit u (Suc n) \<noteq> bit v (LENGTH('a) - 1))"
      using n by (simp only: bit_xor_iff bit_shr1 neg_and_one u0) (simp add: bit_simps)
    also have "\<dots> \<longleftrightarrow> bit v n"
    proof (cases "Suc n < LENGTH('a)")
      case True then show ?thesis by (simp only: uS) auto
    next
      case False
      with n have "n = LENGTH('a) - 1" by simp
      with False show ?thesis by (simp only: uS) auto
    qed
    finally show "bit (drop_bit 1 u XOR - (u AND 1)) n \<longleftrightarrow> bit v n" .
  qed
  then show ?thesis by (simp only: u_def)
qed

text \<open>
  Claim C6. \<open>fromZigZag32 (toZigZag32 v) = v\<close> for every 32-bit signed integer,
  \<open>fromZigZag64 (toZigZag64 w) = w\<close> for every 64-bit signed integer, and
  \<open>toZigZag32\<close> maps 0 to 0, -1 to 1 and 1 to 2.
\<close>

theorem zigzag_roundtrips:
  "fromZigZag32 (toZigZag32 v) = v \<and> fromZigZag64 (toZigZag64 w) = w \<and>
   toZigZag32 0 = 0 \<and> toZigZag32 (- 1) = 1 \<and> toZigZag32 1 = 2"
proof -
  have "fromZigZag32 (toZigZag32 v) = v"
    unfolding fromZigZag32_def toZigZag32_def using zigzag_roundtrip [of v] by simp
  moreover have "fromZigZag64 (toZigZag64 w) = w"
    unfolding fromZigZag64_def toZigZag64_def using zigzag_roundtrip [of w] by simp
  moreover have "toZigZag32 0 = 0" "toZigZag32 (- 1) = 1" "toZigZag32 1 = 2"
    by (simp_all add: toZigZag32_def)
  ultimately show ?thesis by simp
qed

subsection \<open>Triads\<close>

lemma xFF: "(0xFF :: 'a::len word) = mask 8" "(0x0F :: 'a::len word) = mask 4"
  "(0xFFFFFF :: 'a::len word) = mask 24" "(0x0FFFFF :: 'a::len word) = mask 20"
  by (simp_all add: mask_eq_exp_minus_1)

lemma byte_and_FF: "(b :: byte) AND 0xFF = b"
  unfolding xFF by (rule bit_word_eqI) (simp add: bit_simps)

lemma ucast_byte_and_FF: "(ucast (b :: byte) :: uint32) AND 0xFF = ucast b"
  unfolding xFF by (rule bit_word_eqI) (auto simp: bit_simps dest: bit_imp_le_length)

lemma ucast_and_FF: "(ucast ((v :: uint32) AND 0xFF) :: byte) = ucast v"
  unfolding xFF by (rule bit_word_eqI) (auto simp: bit_simps)

lemma ucast_byte_and_0F: "(ucast (b :: byte) :: uint32) AND 0x0F = ucast (b AND 0x0F)"
  unfolding xFF by (rule bit_word_eqI) (auto simp: bit_simps)

lemma WriteBigTriad_bytes:
  "WriteBigTriad buffer v = buffer @ [ucast (drop_bit 16 v), ucast (drop_bit 8 v), ucast v]"
  by (simp add: WriteBigTriad_def Write_def Let_def byte_and_FF ucast_and_FF)

lemma WriteLittleTriad_bytes:
  "WriteLittleTriad buffer v = buffer @ [ucast v, ucast (drop_bit 8 v), ucast (drop_bit 16 v)]"
  by (simp add: WriteLittleTriad_def Write_def Let_def byte_and_FF ucast_and_FF)

lemma nth3: "[a, b, c] ! 0 = a" "[a, b, c] ! 1 = b" "[a, b, c] ! 2 = c"
  by simp_all

lemma ReadBigTriad_bytes:
  "int (length buffer) + 3 \<le> MaxInt \<Longrightarrow>
   ReadBigTriad (buffer @ [b0, b1, b2]) (int (length buffer)) =
     Return (ucast b2 OR push_bit 8 (ucast b1) OR push_bit 16 (ucast (b0 AND 0x0F)), None,
             int (length buffer) + 3)"
  unfolding ReadBigTriad_def
  by (simp only: Read_append3 exec.case prod.case option.case nth3 ucast_byte_and_FF ucast_byte_and_0F)

lemma ReadLittleTriad_bytes:
  "int (length buffer) + 3 \<le> MaxInt \<Longrightarrow>
   ReadLittleTriad (buffer @ [b0, b1, b2]) (int (length buffer)) =
     Return (ucast b0 OR push_bit 8 (ucast b1) OR push_bit 16 (ucast (b2 AND 0x0F)), None,
             int (length buffer) + 3)"
  unfolding ReadLittleTriad_def
  by (simp only: Read_append3 exec.case prod.case option.case nth3 ucast_byte_and_FF ucast_byte_and_0F)

lemma bytes24:
  fixes v :: uint32
  shows "ucast (ucast v :: byte) OR push_bit 8 (ucast (ucast (drop_bit 8 v) :: byte))
         OR push_bit 16 (ucast (ucast (drop_bit 16 v) :: byte)) = v AND 0xFFFFFF"
  unfolding xFF
  apply (rule bit_word_eqI)
  apply (simp only: bit_or_iff bit_and_iff bit_mask_iff bit_byte_of bit_byte0_of)
  subgoal for n by (cases "bit v n") (simp_all, arith)
  done

lemma bit_nibble_of:
  "bit (push_bit 16 (ucast ((ucast (drop_bit 16 v) :: byte) AND 0x0F)) :: uint32) n \<longleftrightarrow>
     16 \<le> n \<and> n < 20 \<and> bit (v :: uint32) n"
  unfolding xFF by (auto simp: bit_simps dest: bit_imp_le_length)

lemma bytes20:
  fixes v :: uint32
  shows "ucast (ucast v :: byte) OR push_bit 8 (ucast (ucast (drop_bit 8 v) :: byte))
         OR push_bit 16 (ucast ((ucast (drop_bit 16 v) :: byte) AND 0x0F)) = v AND 0x0FFFFF"
  unfolding xFF(4)
  apply (rule bit_word_eqI)
  apply (simp only: bit_or_iff bit_and_iff bit_mask_iff bit_byte_of bit_byte0_of bit_nibble_of)
  subgoal for n by (cases "bit v n") (simp_all, arith)
  done

text \<open>
  Claim C7. \<open>ReadLittleTriad\<close> takes its first byte as bits 0 to 7, its second as bits 8
  to 15 and the low nibble of its third, the most significant one, as bits 16 to 19: the
  high nibble of that byte is masked. \<open>WriteLittleTriad\<close> appends the three bytes of
  the low 24 bits of its argument, least significant first, so that writing any value and
  reading it back at the write position yields the value \<open>AND 0x0FFFFF\<close>, which for
  \<open>0xFFFFFFFF\<close> is \<open>0x000FFFFF\<close>. \<open>ReadBigTriad\<close> masks the high nibble of its
  first byte, the most significant one. \<open>WriteBigTriad\<close> appends the three bytes of the
  low 24 bits of its argument, most significant first, with no nibble masked: put together
  again they are the argument \<open>AND 0xFFFFFF\<close>. Reading back what \<open>WriteBigTriad\<close>
  wrote therefore keeps bits 0 to 19 only.
\<close>

theorem triad_masking:
  assumes "int (length buffer) + 3 \<le> MaxInt"
  shows "ReadLittleTriad (WriteLittleTriad buffer 0xFFFFFFFF) (int (length buffer)) =
           Return (0x000FFFFF, None, int (length buffer) + 3) \<and>
         ReadLittleTriad (buffer @ [b0, b1, b2]) (int (length buffer)) =
           Return (ucast b0 OR push_bit 8 (ucast b1) OR push_bit 16 (ucast (b2 AND 0x0F)), None,
                   int (length buffer) + 3) \<and>
         WriteLittleTriad buffer v =
           buffer @ [ucast v, ucast (drop_bit 8 v), ucast (drop_bit 16 v)] \<and>
         ReadLittleTriad (WriteLittleTriad buffer v) (int (length buffer)) =
           Return (v AND 0x0FFFFF, None, int (length buffer) + 3) \<and>
         ReadBigTriad (buffer @ [b0, b1, b2]) (int (length buffer)) =
           Return (ucast b2 OR push_bit 8 (ucast b1) OR push_bit 16 (ucast (b0 AND 0x0F)), None,
                   int (length buffer) + 3) \<and>
         WriteBigTriad buffer v =
           buffer @ [ucast (drop_bit 16 v), ucast (drop_bit 8 v), ucast v] \<and>
         ucast (ucast v :: byte) OR push_bit 8 (ucast (ucast (drop_bit 8 v) :: byte))
           OR push_bit 16 (ucast (ucast (drop_bit 16 v) :: byte)) = v AND 0xFFFFFF \<and>
         ReadBigTriad (WriteBigTriad buffer v) (int (length buffer)) =
           Return (v AND 0x0FFFFF, None, int (length buffer) + 3)"
proof -
  have little: "ReadLittleTriad (WriteLittleTriad buffer w) (int (length buffer)) =
           Return (w AND 0x0FFFFF, None, int (length buffer) + 3)" for w
    by (simp only: WriteLittleTriad_bytes ReadLittleTriad_bytes [OF assms] bytes20)
  from little [of "0xFFFFFFFF"]
  have "ReadLittleTriad (WriteLittleTriad buffer 0xFFFFFFFF) (int (length buffer)) =
           Return (0x000FFFFF, None, int (length buffer) + 3)"
    by simp
  moreover have "ReadBigTriad (WriteBigTriad buffer v) (int (length buffer)) =
           Return (v AND 0x0FFFFF, None, int (length buffer) + 3)"
    by (simp only: WriteBigTriad_bytes ReadBigTriad_bytes [OF assms] bytes20)
  ultimately show ?thesis
    using ReadBigTriad_bytes [OF assms] ReadLittleTriad_bytes [OF assms] WriteBigTriad_bytes
      WriteLittleTriad_bytes bytes24 little [of v]
    by simp
qed

theorem triad_masking_witness:
  "ReadLittleTriad (WriteLittleTriad [] 0xFFFFFFFF) 0 = Return (0x000FFFFF, None, 3) \<and>
   ReadLittleTriad [0xF1, 0x02, 0xF3] 0 = Return (0x0302F1, None, 3) \<and>
   WriteLittleTriad [] 0x12345678 = [0x78, 0x56, 0x34] \<and>
   ReadLittleTriad (WriteLittleTriad [] 0x12345678) 0 = Return (0x045678, None, 3) \<and>
   ReadBigTriad [0xF1, 0x02, 0xF3] 0 = Return (0x0102F3, None, 3) \<and>
   WriteBigTriad [] 0x12345678 = [0x34, 0x56, 0x78] \<and>
   ReadBigTriad (WriteBigTriad [] 0x12345678) 0 = Return (0x045678, None, 3)"
proof -
  have h: "int (length ([] :: byte list)) + 3 \<le> MaxInt"
    by (simp add: MaxInt_def)
  note t = triad_masking [OF h, where ?b0.0 = "0xF1" and ?b1.0 = "0x02" and ?b2.0 = "0xF3"
      and v = "0x12345678"]
  have 1: "ReadLittleTriad (WriteLittleTriad [] 0xFFFFFFFF) 0 = Return (0x000FFFFF, None, 3)"
    using t by simp
  have 2: "ReadLittleTriad [0xF1, 0x02, 0xF3] 0 = Return (0x0302F1, None, 3)"
    using t by simp
  have 3: "WriteLittleTriad [] 0x12345678 = [0x78, 0x56, 0x34]"
    using t by simp
  have 4: "ReadLittleTriad (WriteLittleTriad [] 0x12345678) 0 = Return (0x045678, None, 3)"
    using conjunct1 [OF conjunct2 [OF conjunct2 [OF conjunct2 [OF t]]]] by simp
  have 5: "ReadBigTriad [0xF1, 0x02, 0xF3] 0 = Return (0x0102F3, None, 3)"
    using t by simp
  have 6: "WriteBigTriad [] 0x12345678 = [0x34, 0x56, 0x78]"
    using t by simp
  have 7: "ReadBigTriad (WriteBigTriad [] 0x12345678) 0 = Return (0x045678, None, 3)"
    using conjunct2 [OF conjunct2 [OF conjunct2 [OF conjunct2 [OF conjunct2 [OF conjunct2 [OF conjunct2 [OF t]]]]]]] by simp
  show ?thesis using 1 2 3 4 5 6 7 by blast
qed

subsection \<open>End of buffer\<close>

text \<open>
  Claim C10. \<open>Feof\<close> returns true if and only if the offset is at least
  \<open>len(Buffer) - 1\<close>, so that the position of the last byte already counts as the end,
  and the call leaves the stream as it was: buffer, offset and recorded fault are unchanged,
  and the result does not depend on the fault.
\<close>

theorem Feof_spec:
  "Feof stream = (int (length (Buffer stream)) - 1 \<le> Offset stream, stream) \<and>
   fst (Feof (stream\<lparr>err := e\<rparr>)) = fst (Feof stream) \<and>
   fst (Feof \<lparr>Offset = int (length buf) - 1, Buffer = buf, err = e\<rparr>)"
  by (simp add: Feof_def)


subsection \<open>The err field of a Stream\<close>

text \<open>
  Claim C8. A stream made by \<open>NewStream\<close> or \<open>NewGetStream\<close> has a non-nil \<open>err\<close>
  pointer before anything has failed, and \<open>Error\<close> returns a non-nil error on it. On
  every stream whose \<open>err\<close> pointer is not nil, whatever its buffer and offset, the
  getters that test the pointer (\<open>Get\<close>, \<open>GetVarInt\<close>, \<open>GetVarLong\<close>,
  \<open>GetUnsignedVarInt\<close>, \<open>GetUnsignedVarLong\<close>, \<open>GetString\<close>,
  \<open>GetLengthPrefixedBytes\<close>) return the zero value and leave the stream as it was. No
  method assigns the pointer, so it stays non-nil: \<open>SetOffset\<close>, \<open>SetBuffer\<close>,
  \<open>PutBytes\<close>, \<open>ResetStream\<close> and \<open>SetError\<close> keep it.
\<close>

theorem err_never_nil:
  "err NewStream \<noteq> None \<and> err (NewGetStream buf offset) \<noteq> None \<and>
   Error NewStream \<noteq> NilError \<and> Error (NewGetStream buf offset) \<noteq> NilError \<and>
   (err stream \<noteq> None \<longrightarrow>
      Get stream length' = Return ([], stream) \<and>
      GetVarInt stream = Return (0, stream) \<and>
      GetVarLong stream = Return (0, stream) \<and>
      GetUnsignedVarInt stream = Return (0, stream) \<and>
      GetUnsignedVarLong stream = Return (0, stream) \<and>
      GetString stream = Return ([], stream) \<and>
      GetLengthPrefixedBytes stream = Return ([], stream) \<and>
      err (SetOffset stream offset) \<noteq> None \<and>
      err (SetBuffer stream buf) \<noteq> None \<and>
      err (PutBytes stream buf) \<noteq> None \<and>
      err (ResetStream stream) \<noteq> None \<and>
      (\<exists>stream'. SetError stream e = Return stream' \<and> err stream' \<noteq> None))"
  by (auto simp: NewStream_def NewGetStream_def Error_def Get_def GetVarInt_def GetVarLong_def
      GetUnsignedVarInt_def GetUnsignedVarLong_def GetString_def GetLengthPrefixedBytes_def
      SetOffset_def SetBuffer_def PutBytes_def ResetStream_def SetError_def)

theorem err_never_nil_witness:
  "Get (NewGetStream [1, 2, 3] 0) 2 = Return ([], NewGetStream [1, 2, 3] 0) \<and>
   GetUnsignedVarInt (NewGetStream [5] 0) = Return (0, NewGetStream [5] 0) \<and>
   GetString (SetOffset (SetBuffer NewStream [1, 65]) 0) =
     Return ([], SetOffset (SetBuffer NewStream [1, 65]) 0)"
  using err_never_nil [of "[1, 2, 3]" 0 "NewGetStream [1, 2, 3] 0" 2]
    err_never_nil [of "[5]" 0 "NewGetStream [5] 0"]
    err_never_nil [of "[1, 65]" 0 "NewStream"]
    err_never_nil [of "[1, 65]" 0 "SetBuffer NewStream [1, 65]"]
    err_never_nil [of "[1, 65]" 0 "SetOffset (SetBuffer NewStream [1, 65]) 0"]
  by simp

subsection \<open>Getters that do not test the err field\<close>

text \<open>
  Claim C3, on the code. \<open>GetShort\<close> on the stream of \<open>NewGetStream\<close> over the
  one-byte buffer \<open>[7]\<close> fails and records its error at offset 0. \<open>GetByte\<close> on the
  stream it leaves does not return the zero value: it reads the buffer, returns 7 and
  advances the offset to 1.
\<close>

theorem GetByte_reads_after_fault:
  "GetShort (NewGetStream [7] 0) =
     Return (0, \<lparr>Offset = 0, Buffer = [7],
                 err = Some \<lparr>se_err = Some (Wrap (New ''Not enough bytes to read'')
                                                ''Error reading bytes for short''),
                             se_offset = 0, se_buf = Some [7]\<rparr>\<rparr>) \<and>
   GetByte \<lparr>Offset = 0, Buffer = [7],
            err = Some \<lparr>se_err = Some (Wrap (New ''Not enough bytes to read'')
                                           ''Error reading bytes for short''),
                        se_offset = 0, se_buf = Some [7]\<rparr>\<rparr> =
     Return (7, \<lparr>Offset = 1, Buffer = [7],
                 err = Some \<lparr>se_err = Some (Wrap (New ''Not enough bytes to read'')
                                                ''Error reading bytes for short''),
                             se_offset = 0, se_buf = Some [7]\<rparr>\<rparr>)"
  by (simp add: GetShort_def GetByte_def NewGetStream_def ReadShort_def ReadByte_def Read_def
      wrap_int_def latch_def SetError_def Let_def)

text \<open>
  Claim C5, on the code. On the stream of \<open>NewGetStream\<close> over the one-byte buffer
  \<open>[7]\<close>, \<open>GetShort\<close> fails and records its error at offset 0; \<open>GetByte\<close> then
  succeeds and advances the offset to 1; a second \<open>GetByte\<close> fails and replaces the
  recorded error by its own and the recorded offset by 1.
\<close>

theorem later_fault_overwrites:
  "GetShort (NewGetStream [7] 0) =
     Return (0, \<lparr>Offset = 0, Buffer = [7],
                 err = Some \<lparr>se_err = Some (Wrap (New ''Not enough bytes to read'')
                                                ''Error reading bytes for short''),
                             se_offset = 0, se_buf = Some [7]\<rparr>\<rparr>) \<and>
   GetByte \<lparr>Offset = 0, Buffer = [7],
            err = Some \<lparr>se_err = Some (Wrap (New ''Not enough bytes to read'')
                                           ''Error reading bytes for short''),
                        se_offset = 0, se_buf = Some [7]\<rparr>\<rparr> =
     Return (7, \<lparr>Offset = 1, Buffer = [7],
                 err = Some \<lparr>se_err = Some (Wrap (New ''Not enough bytes to read'')
                                                ''Error reading bytes for short''),
                             se_offset = 0, se_buf = Some [7]\<rparr>\<rparr>) \<and>
   GetByte \<lparr>Offset = 1, Buffer = [7],
            err = Some \<lparr>se_err = Some (Wrap (New ''Not enough bytes to read'')
                                           ''Error reading bytes for short''),
                        se_offset = 0, se_buf = Some [7]\<rparr>\<rparr> =
     Return (0, \<lparr>Offset = 1, Buffer = [7],
                 err = Some \<lparr>se_err = Some (Wrap (New ''Not enough bytes to read'')
                                                ''Error reading byte''),
                             se_offset = 1, se_buf = Some [7]\<rparr>\<rparr>)"
  by (simp add: GetShort_def GetByte_def NewGetStream_def ReadShort_def ReadByte_def Read_def
      wrap_int_def latch_def SetError_def Let_def)

text \<open>
  Claim C9, on the code. The stream of \<open>NewGetStream\<close> over \<open>[1, 2, 3]\<close> at offset 0
  has recorded no error, yet \<open>Get\<close> with length -1 returns no byte and leaves the offset
  at 0, because the \<open>err\<close> pointer is not nil. Only on a stream whose \<open>err\<close> pointer
  is nil is the read reached: there the same call returns the
  \<open>len(Buffer) - Offset - 1 = 2\<close> bytes at the offset and advances the offset by 2, and
  panics when the offset is at the end of the buffer.
\<close>

theorem Get_negative_on_fresh_stream:
  "NewGetStream [1, 2, 3] 0 =
     \<lparr>Offset = 0, Buffer = [1, 2, 3],
      err = Some \<lparr>se_err = None, se_offset = 0, se_buf = Some [1, 2, 3]\<rparr>\<rparr> \<and>
   Get (NewGetStream [1, 2, 3] 0) (- 1) = Return ([], NewGetStream [1, 2, 3] 0) \<and>
   Get \<lparr>Offset = 0, Buffer = [1, 2, 3], err = None\<rparr> (- 1) =
     Return ([1, 2], \<lparr>Offset = 2, Buffer = [1, 2, 3], err = None\<rparr>) \<and>
   Get \<lparr>Offset = 3, Buffer = [1, 2, 3], err = None\<rparr> (- 1) = Panic"
  by (simp add: Get_def NewGetStream_def Read_def wrap_int_def latch_def Let_def)

subsection \<open>Variable-length integers\<close>

declare WriteUnsignedVarInt.simps [simp del] WriteUnsignedVarLong.simps [simp del]
  ReadUnsignedVarInt_loop.simps [simp del] ReadUnsignedVarLong_loop.simps [simp del]

lemma WriteUnsignedVarInt_lengths:
  "length (WriteUnsignedVarInt buffer 0) = length buffer + 1"
  "length (WriteUnsignedVarInt buffer 127) = length buffer + 1"
  "length (WriteUnsignedVarInt buffer 128) = length buffer + 2"
  "length (WriteUnsignedVarInt buffer (2 ^ 28 - 1)) = length buffer + 4"
  "length (WriteUnsignedVarInt buffer (2 ^ 32 - 1)) = length buffer + 5"
  by (simp_all add: WriteUnsignedVarInt.simps Write_def)

lemma wrap_int_range: "MinInt \<le> wrap_int x \<and> wrap_int x \<le> MaxInt"
  unfolding wrap_int_def MinInt_def MaxInt_def
  using pos_mod_bound [of "2 ^ 64" "x + 2 ^ 63"] pos_mod_sign [of "2 ^ 64" "x + 2 ^ 63"]
  by simp

lemma Read1_ok:
  assumes "Read buffer offset 1 = Return (b, None, offset')"
  shows "offset' = offset + 1 \<and> 0 \<le> offset \<and> offset + 1 \<le> int (length buffer)
         \<and> b ! 0 = buffer ! nat offset"
proof -
  from assms have ok: "\<not> int (length buffer) < wrap_int (offset + 1)" "0 \<le> offset"
    "offset \<le> wrap_int (offset + 1)"
    by (auto simp: Read_def Let_def split: if_splits)
  have "offset + 1 \<le> MaxInt"
  proof (rule ccontr)
    assume "\<not> offset + 1 \<le> MaxInt"
    with ok(3) wrap_int_range [of "offset + 1"] have "offset = MaxInt" by linarith
    with ok(3) show False by (simp add: wrap_int_def MaxInt_def)
  qed
  with ok(2) show ?thesis using assms by (auto simp: Read_in_range split: if_splits simp: nth_via_drop hd_drop_conv_nth)
qed

lemma Read1_err:
  assumes "Read buffer offset 1 = Return (b, Some e, offset')"
  shows "offset' = offset"
  using assms by (auto simp: Read_def Let_def split: if_splits)


lemma byte_not_neg: "\<not> (b :: byte) < 0"
  by simp


lemma ReadUnsignedVarInt_loop_consumed:
  "ReadUnsignedVarInt_loop buffer offset result j = Return (r, e, offset') \<Longrightarrow> j \<le> 5 \<Longrightarrow>
   offset' \<le> offset + (6 - int j) \<and>
   (offset' = offset + (6 - int j) \<longrightarrow> e = Some (New ''Unsigned varint too big''))"
proof (induction buffer offset result j arbitrary: r e offset'
       rule: ReadUnsignedVarInt_loop.induct)
  case (1 buffer offset result j)
  note run = "1.prems"(1) and j = "1.prems"(2)
  show ?case
  proof (cases "Read buffer offset 1")
    case Panic
    with run show ?thesis by (simp add: ReadUnsignedVarInt_loop.simps)
  next
    case (Return x)
    obtain b err o' where x: "x = (b, err, o')" by (cases x)
    show ?thesis
    proof (cases err)
      case (Some er)
      with Return x have "o' = offset" using Read1_err by blast
      with run Return x Some j show ?thesis
        by (auto simp: ReadUnsignedVarInt_loop.simps)
    next
      case None
      with Return x have o': "o' = offset + 1" using Read1_ok by blast
      show ?thesis
      proof (cases "j + 1 > 5")
        case True
        with run Return x None o' j show ?thesis
          by (auto simp: ReadUnsignedVarInt_loop.simps Let_def)
      next
        case small: False
        show ?thesis
        proof (cases "b ! 0 AND 0x80 \<noteq> 0")
          case True
          with run Return x None small
          have rec: "ReadUnsignedVarInt_loop buffer o'
                       (result OR push_bit (j * 7) (ucast (b ! 0 AND 0x7f))) (j + 1) =
                     Return (r, e, offset')"
            by (simp add: ReadUnsignedVarInt_loop.simps [of buffer offset] Let_def)
          have "offset' \<le> o' + (6 - int (j + 1)) \<and>
                (offset' = o' + (6 - int (j + 1)) \<longrightarrow> e = Some (New ''Unsigned varint too big''))"
            using "1.IH" [OF Return x [symmetric] refl None refl byte_not_neg refl refl small True rec] small
            by simp
          with o' show ?thesis by simp
        next
          case False
          with run Return x None small o' j show ?thesis
            by (auto simp: ReadUnsignedVarInt_loop.simps Let_def)
        qed
      qed
    qed
  qed
qed


lemma Read1_at:
  assumes "0 \<le> offset" "offset + 1 \<le> int (length buffer)" "int (length buffer) \<le> MaxInt"
  shows "Read buffer offset 1 = Return ([buffer ! nat offset], None, offset + 1)"
proof -
  have "offset + 1 \<le> MaxInt" using assms by linarith
  moreover have "take (Suc 0) (drop (nat offset) buffer) = [buffer ! nat offset]"
    using assms by (simp add: take_Suc_conv_app_nth hd_drop_conv_nth take_Suc)
  ultimately show ?thesis using assms by (simp add: Read_in_range)
qed

lemma ReadUnsignedVarInt_loop_six:
  "j \<le> 5 \<Longrightarrow> 0 \<le> offset \<Longrightarrow> offset + (6 - int j) \<le> int (length buffer) \<Longrightarrow>
   int (length buffer) \<le> MaxInt \<Longrightarrow>
   (\<forall>i < 5 - j. buffer ! (nat offset + i) AND 0x80 \<noteq> 0) \<Longrightarrow>
   ReadUnsignedVarInt_loop buffer offset result j =
     Return (0, Some (New ''Unsigned varint too big''), offset + (6 - int j))"
proof (induction "5 - j" arbitrary: j offset result)
  case 0
  then have j: "j = 5" by simp
  have "Read buffer offset 1 = Return ([buffer ! nat offset], None, offset + 1)"
    using "0.prems" j by (intro Read1_at) simp_all
  then show ?case using j
    by (simp add: ReadUnsignedVarInt_loop.simps [of buffer offset] Let_def)
next
  case (Suc k)
  then have j: "j < 5" "k = 5 - (j + 1)" by simp_all
  have rd: "Read buffer offset 1 = Return ([buffer ! nat offset], None, offset + 1)"
    using Suc.prems j by (intro Read1_at) simp_all
  have cont: "buffer ! nat offset AND 0x80 \<noteq> 0"
    using Suc.prems(5) j(1) by (metis add.right_neutral zero_less_diff)
  have later: "\<forall>i < 5 - (j + 1). buffer ! (nat (offset + 1) + i) AND 0x80 \<noteq> 0"
  proof (intro allI impI)
    fix i assume "i < 5 - (j + 1)"
    then have "Suc i < 5 - j" by simp
    with Suc.prems(5) have "buffer ! (nat offset + Suc i) AND 0x80 \<noteq> 0" by blast
    moreover have "nat (offset + 1) + i = nat offset + Suc i" using Suc.prems(2) by simp
    ultimately show "buffer ! (nat (offset + 1) + i) AND 0x80 \<noteq> 0" by simp
  qed
  have "ReadUnsignedVarInt_loop buffer (offset + 1)
          (result OR push_bit (j * 7) (ucast (buffer ! nat offset AND 0x7f))) (j + 1) =
        Return (0, Some (New ''Unsigned varint too big''), offset + 1 + (6 - int (j + 1)))"
    using Suc.prems j later by (intro Suc.hyps(1)) simp_all
  then show ?case using rd cont j
    by (simp add: ReadUnsignedVarInt_loop.simps [of buffer offset] Let_def)
qed

lemma ReadUnsignedVarLong_loop_consumed:
  "ReadUnsignedVarLong_loop buffer offset result j = Return (r, e, offset') \<Longrightarrow> j \<le> 10 \<Longrightarrow>
   offset' \<le> offset + (11 - int j) \<and>
   (offset' = offset + (11 - int j) \<longrightarrow> e = Some (New ''Unsigned var long too big''))"
proof (induction buffer offset result j arbitrary: r e offset'
       rule: ReadUnsignedVarLong_loop.induct)
  case (1 buffer offset result j)
  note run = "1.prems"(1) and j = "1.prems"(2)
  show ?case
  proof (cases "Read buffer offset 1")
    case Panic
    with run show ?thesis by (simp add: ReadUnsignedVarLong_loop.simps)
  next
    case (Return x)
    obtain b err o' where x: "x = (b, err, o')" by (cases x)
    show ?thesis
    proof (cases err)
      case (Some er)
      with Return x have "o' = offset" using Read1_err by blast
      with run Return x Some j show ?thesis
        by (auto simp: ReadUnsignedVarLong_loop.simps)
    next
      case None
      with Return x have o': "o' = offset + 1" using Read1_ok by blast
      show ?thesis
      proof (cases "j + 1 > 10")
        case True
        with run Return x None o' j show ?thesis
          by (auto simp: ReadUnsignedVarLong_loop.simps Let_def)
      next
        case small: False
        show ?thesis
        proof (cases "b ! 0 AND 0x80 \<noteq> 0")
          case True
          with run Return x None small
          have rec: "ReadUnsignedVarLong_loop buffer o'
                       (result OR push_bit (j * 7) (ucast (b ! 0 AND 0x7f))) (j + 1) =
                     Return (r, e, offset')"
            by (simp add: ReadUnsignedVarLong_loop.simps [of buffer offset] Let_def)
          have "offset' \<le> o' + (11 - int (j + 1)) \<and>
                (offset' = o' + (11 - int (j + 1)) \<longrightarrow> e = Some (New ''Unsigned var long too big''))"
            using "1.IH" [OF Return x [symmetric] refl None refl byte_not_neg refl refl small True rec] small
            by simp
          with o' show ?thesis by simp
        next
          case False
          with run Return x None small o' j show ?thesis
            by (auto simp: ReadUnsignedVarLong_loop.simps Let_def)
        qed
      qed
    qed
  qed
qed



lemma ReadUnsignedVarLong_loop_eleven:
  "j \<le> 10 \<Longrightarrow> 0 \<le> offset \<Longrightarrow> offset + (11 - int j) \<le> int (length buffer) \<Longrightarrow>
   int (length buffer) \<le> MaxInt \<Longrightarrow>
   (\<forall>i < 10 - j. buffer ! (nat offset + i) AND 0x80 \<noteq> 0) \<Longrightarrow>
   ReadUnsignedVarLong_loop buffer offset result j =
     Return (0, Some (New ''Unsigned var long too big''), offset + (11 - int j))"
proof (induction "10 - j" arbitrary: j offset result)
  case 0
  then have j: "j = 10" by simp
  have "Read buffer offset 1 = Return ([buffer ! nat offset], None, offset + 1)"
    using "0.prems" j by (intro Read1_at) simp_all
  then show ?case using j
    by (simp add: ReadUnsignedVarLong_loop.simps [of buffer offset] Let_def)
next
  case (Suc k)
  then have j: "j < 10" "k = 10 - (j + 1)" by simp_all
  have rd: "Read buffer offset 1 = Return ([buffer ! nat offset], None, offset + 1)"
    using Suc.prems j by (intro Read1_at) simp_all
  have cont: "buffer ! nat offset AND 0x80 \<noteq> 0"
    using Suc.prems(5) j(1) by (metis add.right_neutral zero_less_diff)
  have later: "\<forall>i < 10 - (j + 1). buffer ! (nat (offset + 1) + i) AND 0x80 \<noteq> 0"
  proof (intro allI impI)
    fix i assume "i < 10 - (j + 1)"
    then have "Suc i < 10 - j" by simp
    with Suc.prems(5) have "buffer ! (nat offset + Suc i) AND 0x80 \<noteq> 0" by blast
    moreover have "nat (offset + 1) + i = nat offset + Suc i" using Suc.prems(2) by simp
    ultimately show "buffer ! (nat (offset + 1) + i) AND 0x80 \<noteq> 0" by simp
  qed
  have "ReadUnsignedVarLong_loop buffer (offset + 1)
          (result OR push_bit (j * 7) (ucast (buffer ! nat offset AND 0x7f))) (j + 1) =
        Return (0, Some (New ''Unsigned var long too big''), offset + 1 + (11 - int (j + 1)))"
    using Suc.prems j later by (intro Suc.hyps(1)) simp_all
  then show ?case using rd cont j
    by (simp add: ReadUnsignedVarLong_loop.simps [of buffer offset] Let_def)
qed

text \<open>
  Claim C4. \<open>WriteUnsignedVarInt\<close> appends 1, 1, 2, 4 and 5 bytes for the values 0, 127,
  128, \<open>2^28 - 1\<close> and \<open>2^32 - 1\<close>. Whenever \<open>ReadUnsignedVarInt\<close> returns having
  consumed more than 5 bytes, its error is "Unsigned varint too big"; in particular it
  returns that error, six bytes on, at every offset where five bytes with the continuation
  bit are followed by a sixth byte. Whenever \<open>ReadUnsignedVarLong\<close> returns having
  consumed more than 10 bytes, its error is "Unsigned var long too big"; it returns that
  error, eleven bytes on, at every offset where ten bytes with the continuation bit are
  followed by an eleventh byte.
\<close>

theorem varint_boundary:
  "length (WriteUnsignedVarInt buf 0) = length buf + 1 \<and>
   length (WriteUnsignedVarInt buf 127) = length buf + 1 \<and>
   length (WriteUnsignedVarInt buf 128) = length buf + 2 \<and>
   length (WriteUnsignedVarInt buf (2 ^ 28 - 1)) = length buf + 4 \<and>
   length (WriteUnsignedVarInt buf (2 ^ 32 - 1)) = length buf + 5 \<and>
   (ReadUnsignedVarInt buffer offset = Return (r, e, offset') \<and> offset + 5 < offset' \<longrightarrow>
      e = Some (New ''Unsigned varint too big'')) \<and>
   (0 \<le> offset \<and> offset + 6 \<le> int (length buffer) \<and> int (length buffer) \<le> MaxInt \<and>
    (\<forall>i < 5. buffer ! (nat offset + i) AND 0x80 \<noteq> 0) \<longrightarrow>
      ReadUnsignedVarInt buffer offset =
        Return (0, Some (New ''Unsigned varint too big''), offset + 6)) \<and>
   (ReadUnsignedVarLong buffer offset = Return (rl, el, offsetl') \<and> offset + 10 < offsetl' \<longrightarrow>
      el = Some (New ''Unsigned var long too big'')) \<and>
   (0 \<le> offset \<and> offset + 11 \<le> int (length buffer) \<and> int (length buffer) \<le> MaxInt \<and>
    (\<forall>i < 10. buffer ! (nat offset + i) AND 0x80 \<noteq> 0) \<longrightarrow>
      ReadUnsignedVarLong buffer offset =
        Return (0, Some (New ''Unsigned var long too big''), offset + 11))"
proof -
  have six: "ReadUnsignedVarInt buffer offset =
               Return (0, Some (New ''Unsigned varint too big''), offset + 6)"
    if "0 \<le> offset" "offset + 6 \<le> int (length buffer)" "int (length buffer) \<le> MaxInt"
      "\<forall>i < 5. buffer ! (nat offset + i) AND 0x80 \<noteq> 0"
    using ReadUnsignedVarInt_loop_six [of 0 offset buffer 0] that
    by (simp add: ReadUnsignedVarInt_def)
  have eleven: "ReadUnsignedVarLong buffer offset =
               Return (0, Some (New ''Unsigned var long too big''), offset + 11)"
    if "0 \<le> offset" "offset + 11 \<le> int (length buffer)" "int (length buffer) \<le> MaxInt"
      "\<forall>i < 10. buffer ! (nat offset + i) AND 0x80 \<noteq> 0"
    using ReadUnsignedVarLong_loop_eleven [of 0 offset buffer 0] that
    by (simp add: ReadUnsignedVarLong_def)
  have int: "e = Some (New ''Unsigned varint too big'')"
    if "ReadUnsignedVarInt buffer offset = Return (r, e, offset')" "offset + 5 < offset'"
    using ReadUnsignedVarInt_loop_consumed [of buffer offset 0 0 r e offset'] that
    by (simp add: ReadUnsignedVarInt_def)
  have long: "el = Some (New ''Unsigned var long too big'')"
    if "ReadUnsignedVarLong buffer offset = Return (rl, el, offsetl')" "offset + 10 < offsetl'"
    using ReadUnsignedVarLong_loop_consumed [of buffer offset 0 0 rl el offsetl'] that
    by (simp add: ReadUnsignedVarLong_def)
  show ?thesis
    using six eleven int long WriteUnsignedVarInt_lengths [of buf] by simp
qed

theorem varint_boundary_witness:
  "ReadUnsignedVarInt [0x80, 0x81, 0x82, 0x83, 0x84, 0x00, 0x80, 0x80, 0x80, 0x80, 0x00] 0 =
     Return (0, Some (New ''Unsigned varint too big''), 6) \<and>
   ReadUnsignedVarLong [0x80, 0x81, 0x82, 0x83, 0x84, 0x85, 0x86, 0x87, 0x88, 0x89, 0x00] 0 =
     Return (0, Some (New ''Unsigned var long too big''), 11)"
proof -
  let ?b = "[0x80, 0x81, 0x82, 0x83, 0x84, 0x00, 0x80, 0x80, 0x80, 0x80, 0x00 :: byte]"
  let ?bl = "[0x80, 0x81, 0x82, 0x83, 0x84, 0x85, 0x86, 0x87, 0x88, 0x89, 0x00 :: byte]"
  have h: "\<forall>i < 5. ?b ! (nat 0 + i) AND 0x80 \<noteq> 0"
  proof (intro allI impI)
    fix i :: nat
    assume "i < 5"
    then have "i = 0 \<or> i = 1 \<or> i = 2 \<or> i = 3 \<or> i = 4" by presburger
    then show "?b ! (nat 0 + i) AND 0x80 \<noteq> 0"
      by (elim disjE) simp_all
  qed
  have hl: "\<forall>i < 10. ?bl ! (nat 0 + i) AND 0x80 \<noteq> 0"
  proof (intro allI impI)
    fix i :: nat
    assume "i < 10"
    then have "i = 0 \<or> i = 1 \<or> i = 2 \<or> i = 3 \<or> i = 4 \<or> i = 5 \<or> i = 6 \<or> i = 7
               \<or> i = 8 \<or> i = 9"
      by presburger
    then show "?bl ! (nat 0 + i) AND 0x80 \<noteq> 0"
      by (elim disjE) simp_all
  qed
  have pre: "(0 :: int) \<le> 0 \<and> 0 + 6 \<le> int (length ?b) \<and> int (length ?b) \<le> MaxInt \<and>
             (\<forall>i < 5. ?b ! (nat 0 + i) AND 0x80 \<noteq> 0)"
    using h by (simp add: MaxInt_def)
  have prel: "(0 :: int) \<le> 0 \<and> 0 + 11 \<le> int (length ?bl) \<and> int (length ?bl) \<le> MaxInt \<and>
              (\<forall>i < 10. ?bl ! (nat 0 + i) AND 0x80 \<noteq> 0)"
    using hl by (simp add: MaxInt_def)
  note t = varint_boundary [of _ ?b 0]
  note tl = varint_boundary [of _ ?bl 0]
  have "ReadUnsignedVarInt ?b 0 = Return (0, Some (New ''Unsigned varint too big''), 0 + 6)"
    using t [THEN conjunct2, THEN conjunct2, THEN conjunct2, THEN conjunct2, THEN conjunct2,
             THEN conjunct2, THEN conjunct1] pre
    by (rule mp)
  moreover
  have "ReadUnsignedVarLong ?bl 0 =
          Return (0, Some (New ''Unsigned var long too big''), 0 + 11)"
    using tl [THEN conjunct2, THEN conjunct2, THEN conjunct2, THEN conjunct2, THEN conjunct2,
              THEN conjunct2, THEN conjunct2, THEN conjunct2] prel
    by (rule mp)
  ultimately show ?thesis by simp
qed

end
